theory Spec2Isabelle
  imports Main
begin

section \<open>VideoBaseTexture: a texture over a playing video element\<close>

text \<open>
  A shallow embedding of \<^verbatim>\<open>src/core/textures/VideoBaseTexture.js\<close>.
  JavaScript objects are shared and mutable, so the embedding keeps an explicit store:
  video elements and textures live in two heaps indexed by references, and every method
  takes the store and returns the updated one. The effects on the host (scheduled frame
  callbacks, emitted events, calls of the base texture's \<^verbatim>\<open>update\<close>) are kept as
  logs in the store.
\<close>

subsection \<open>Data model\<close>

type_synonym vid_ref = nat
type_synonym tex_ref = nat

text \<open>The \<^verbatim>\<open>readyState\<close> of a media element, with the element's own constants.\<close>

datatype ready_state =
  HAVE_NOTHING | HAVE_METADATA | HAVE_CURRENT_DATA | HAVE_FUTURE_DATA | HAVE_ENOUGH_DATA

text \<open>
  The functions this file hands to the host: the bound \<^verbatim>\<open>_onCanPlay\<close>, the bound
  \<^verbatim>\<open>_onPlayStart\<close> and \<^verbatim>\<open>_onPlayStop\<close> (event listeners), and the bound
  \<^verbatim>\<open>_onUpdate\<close> (frame callback). Each is bound to its texture.
\<close>

datatype callback =
  OnCanPlay tex_ref | OnPlayStart tex_ref | OnPlayStop tex_ref | OnUpdate tex_ref

fun callback_texture :: "callback \<Rightarrow> tex_ref" where
  "callback_texture (OnCanPlay t) = t"
| "callback_texture (OnPlayStart t) = t"
| "callback_texture (OnPlayStop t) = t"
| "callback_texture (OnUpdate t) = t"

text \<open>
  What \<^verbatim>\<open>videoSrc.src || videoSrc\<close> evaluates to: a string, or the descriptor object
  itself when it has no usable \<^verbatim>\<open>src\<close>.
\<close>

datatype path = PathStr string | PathObj

text \<open>A \<^verbatim>\<open>source\<close> child element, as \<^verbatim>\<open>createSource\<close> builds it.\<close>

record source_decl =
  s_src :: path
  s_type :: string

text \<open>
  A video element. \<^verbatim>\<open>pixiId\<close> is the property \<^verbatim>\<open>_pixiId\<close> (\<open>None\<close> when it is
  not set), \<^verbatim>\<open>complete\<close> is the property this file sets on the element (false when it
  is not set), \<^verbatim>\<open>v_width\<close> and \<^verbatim>\<open>v_height\<close> are the element's \<^verbatim>\<open>width\<close> and
  \<^verbatim>\<open>height\<close>. \<^verbatim>\<open>play_calls\<close> and \<^verbatim>\<open>load_calls\<close> count the calls of
  \<^verbatim>\<open>play()\<close> and \<^verbatim>\<open>load()\<close>.
\<close>

record video =
  readyState :: ready_state
  v_width :: nat
  v_height :: nat
  videoWidth :: nat
  videoHeight :: nat
  complete :: bool
  pixiId :: "string option"
  listeners :: "(string \<times> callback) list"
  children :: "source_decl list"
  play_calls :: nat
  load_calls :: nat

text \<open>
  A VideoBaseTexture: the fields of the base texture this file reads or writes
  (\<^verbatim>\<open>source\<close>, \<^verbatim>\<open>hasLoaded\<close>, \<^verbatim>\<open>width\<close>, \<^verbatim>\<open>height\<close>) and its own
  (\<^verbatim>\<open>autoUpdate\<close>, and \<^verbatim>\<open>__loaded\<close>, here \<^verbatim>\<open>uu_loaded\<close>).
\<close>

record texture =
  source :: "vid_ref option"
  hasLoaded :: bool
  width :: nat
  height :: nat
  autoUpdate :: bool
  uu_loaded :: bool

text \<open>
  The store. \<^verbatim>\<open>next_tex\<close> and \<^verbatim>\<open>next_vid\<close> are the allocation counters of the two
  heaps, \<^verbatim>\<open>nextUid\<close> is the counter behind \<^verbatim>\<open>utils.uid()\<close>, \<^verbatim>\<open>raf\<close> is the queue
  of callbacks passed to \<^verbatim>\<open>window.requestAnimationFrame\<close>, \<^verbatim>\<open>emitted\<close> logs the calls
  \<^verbatim>\<open>emit(name, arg)\<close> as (emitter, name, arg), \<^verbatim>\<open>updates\<close> logs the calls of the base
  texture's \<^verbatim>\<open>update()\<close>.
\<close>

record world =
  videos :: "vid_ref \<Rightarrow> video"
  textures :: "tex_ref \<Rightarrow> texture"
  next_vid :: nat
  next_tex :: nat
  BaseTextureCache :: "string \<rightharpoonup> tex_ref"
  nextUid :: nat
  raf :: "callback list"
  emitted :: "(tex_ref \<times> string \<times> tex_ref) list"
  updates :: "tex_ref list"

datatype error = NoVideoSource | TypeError

definition upd_texture :: "world \<Rightarrow> tex_ref \<Rightarrow> (texture \<Rightarrow> texture) \<Rightarrow> world" where
  "upd_texture w t f = w\<lparr>textures := (textures w)(t := f (textures w t))\<rparr>"

definition upd_video :: "world \<Rightarrow> vid_ref \<Rightarrow> (video \<Rightarrow> video) \<Rightarrow> world" where
  "upd_video w r f = w\<lparr>videos := (videos w)(r := f (videos w r))\<rparr>"

text \<open>JavaScript truthiness of a string-valued property: set, and not the empty string.\<close>

fun truthy :: "string option \<Rightarrow> bool" where
  "truthy None = False"
| "truthy (Some s) = (s \<noteq> [])"

subsection \<open>The host and the base texture\<close>

text \<open>
  Modelled from the spec: \<^verbatim>\<open>addEventListener\<close> of the video element (section 6, the
  signals of the video-resource collaborator). A listener is a pair of an event name and
  a callback; adding a pair that is registered already changes nothing.
\<close>

definition addEventListener :: "world \<Rightarrow> vid_ref \<Rightarrow> string \<Rightarrow> callback \<Rightarrow> world" where
  "addEventListener w r ev cb =
     upd_video w r (\<lambda>v. v\<lparr>listeners :=
        (if (ev, cb) \<in> set (listeners v) then listeners v else listeners v @ [(ev, cb)])\<rparr>)"

text \<open>
  Modelled from the spec: \<^verbatim>\<open>removeEventListener\<close> of the video element (section 6):
  it takes the pair of the event name and the callback out of the listeners.
\<close>

definition removeEventListener :: "world \<Rightarrow> vid_ref \<Rightarrow> string \<Rightarrow> callback \<Rightarrow> world" where
  "removeEventListener w r ev cb =
     upd_video w r (\<lambda>v. v\<lparr>listeners := removeAll (ev, cb) (listeners v)\<rparr>)"

text \<open>
  Modelled from the spec: the command "start playback" of the video element (section 6).
  The call is counted; the signals it causes are delivered by the host later.
\<close>

definition play :: "world \<Rightarrow> vid_ref \<Rightarrow> world" where
  "play w r = upd_video w r (\<lambda>v. v\<lparr>play_calls := Suc (play_calls v)\<rparr>)"

text \<open>Modelled from the spec: "trigger load" of the element-creation collaborator (section 6).\<close>

definition load :: "world \<Rightarrow> vid_ref \<Rightarrow> world" where
  "load w r = upd_video w r (\<lambda>v. v\<lparr>load_calls := Suc (load_calls v)\<rparr>)"

text \<open>
  Modelled from the spec: the host's "invoke this callback before the next display
  refresh" (section 6): the callback joins the queue of pending frame callbacks.
\<close>

definition requestAnimationFrame :: "world \<Rightarrow> callback \<Rightarrow> world" where
  "requestAnimationFrame w cb = w\<lparr>raf := raf w @ [cb]\<rparr>"

text \<open>
  Modelled from the spec: the notification channel of the base texture (section 6).
  An emission is logged; the subscribers are outside this file.
\<close>

definition emit :: "world \<Rightarrow> tex_ref \<Rightarrow> string \<Rightarrow> tex_ref \<Rightarrow> world" where
  "emit w t name arg = w\<lparr>emitted := emitted w @ [(t, name, arg)]\<rparr>"

text \<open>
  Modelled from the spec: the base texture's update operation, which pushes the current
  frame into the pixel storage (section 6). The call is logged.
\<close>

definition update :: "world \<Rightarrow> tex_ref \<Rightarrow> world" where
  "update w t = w\<lparr>updates := updates w @ [t]\<rparr>"

text \<open>
  Modelled from the spec: the constructor of the base texture (BaseTexture.js is not
  among the sources). It keeps the reference to the resource, and records readiness for a
  resource that is complete with non-zero width and height (the comment above line 44,
  and property 1 of section 8). The spec does not fix the dimensions the base texture
  starts with: they are the parameter \<open>dims\<close>.
\<close>

definition BaseTexture_ctor :: "nat \<times> nat \<Rightarrow> vid_ref \<Rightarrow> video \<Rightarrow> texture" where
  "BaseTexture_ctor dims r v =
     \<lparr>source = Some r,
      hasLoaded = (complete v \<and> v_width v \<noteq> 0 \<and> v_height v \<noteq> 0),
      width = fst dims, height = snd dims,
      autoUpdate = False, uu_loaded = False\<rparr>"

text \<open>
  Modelled from the spec: the destroy procedure of the base texture (section 4.3). After
  it the resource reference of the texture is absent (section 4.1, "already destroyed").
\<close>

definition BaseTexture_destroy :: "world \<Rightarrow> tex_ref \<Rightarrow> world" where
  "BaseTexture_destroy w t = upd_texture w t (\<lambda>x. x\<lparr>source := None\<rparr>)"

text \<open>
  Modelled from the spec: \<^verbatim>\<open>utils.uid()\<close>, the generator of fresh unique numbers
  behind the identity tags (section 4.3): it increments a counter and returns it.
\<close>

definition uid :: "world \<Rightarrow> world \<times> nat" where
  "uid w = (w\<lparr>nextUid := Suc (nextUid w)\<rparr>, Suc (nextUid w))"

subsection \<open>The handlers (lines 80 to 145)\<close>

text \<open>\<^verbatim>\<open>_onUpdate\<close>, lines 80 to 87.\<close>

definition onUpdate :: "world \<Rightarrow> tex_ref \<Rightarrow> world" where
  "onUpdate w t =
     (if autoUpdate (textures w t)
      then update (requestAnimationFrame w (OnUpdate t)) t
      else w)"

text \<open>\<^verbatim>\<open>_onCanPlay\<close>, lines 124 to 145.\<close>

definition onCanPlay :: "world \<Rightarrow> tex_ref \<Rightarrow> world" where
  "onCanPlay w t =
     (let w1 = upd_texture w t (\<lambda>x. x\<lparr>hasLoaded := True\<rparr>) in
      case source (textures w1 t) of
        None \<Rightarrow> w1
      | Some r \<Rightarrow>
          let w2 = removeEventListener w1 r ''canplay'' (OnCanPlay t);
              w3 = removeEventListener w2 r ''canplaythrough'' (OnCanPlay t);
              w4 = upd_texture w3 t (\<lambda>x. x\<lparr>width := videoWidth (videos w3 r)\<rparr>);
              w5 = upd_texture w4 t (\<lambda>x. x\<lparr>height := videoHeight (videos w4 r)\<rparr>);
              w6 = play w5 r
          in if \<not> uu_loaded (textures w6 t)
             then emit (upd_texture w6 t (\<lambda>x. x\<lparr>uu_loaded := True\<rparr>)) t ''loaded'' t
             else w6)"

text \<open>\<^verbatim>\<open>_onPlayStart\<close>, lines 94 to 107.\<close>

definition onPlayStart :: "world \<Rightarrow> tex_ref \<Rightarrow> world" where
  "onPlayStart w t =
     (let w1 = (if \<not> hasLoaded (textures w t) then onCanPlay w t else w) in
      if \<not> autoUpdate (textures w1 t)
      then upd_texture (requestAnimationFrame w1 (OnUpdate t)) t (\<lambda>x. x\<lparr>autoUpdate := True\<rparr>)
      else w1)"

text \<open>\<^verbatim>\<open>_onPlayStop\<close>, lines 114 to 117.\<close>

definition onPlayStop :: "world \<Rightarrow> tex_ref \<Rightarrow> world" where
  "onPlayStop w t = upd_texture w t (\<lambda>x. x\<lparr>autoUpdate := False\<rparr>)"

subsection \<open>Construction, caching and destruction (lines 34 to 73 and 151 to 186)\<close>

text \<open>
  The constructor, lines 34 to 73. \<^verbatim>\<open>super(source, scaleMode)\<close> allocates the texture
  with the fields of the base texture; \<open>dims\<close> are the dimensions the base texture
  starts with.
\<close>

definition VideoBaseTexture_ctor ::
    "nat \<times> nat \<Rightarrow> world \<Rightarrow> vid_ref option \<Rightarrow> error + world \<times> tex_ref" where
  "VideoBaseTexture_ctor dims w src =
     (case src of
        None \<Rightarrow> Inl NoVideoSource
      | Some r \<Rightarrow>
          let w1 = (if (readyState (videos w r) = HAVE_ENOUGH_DATA
                          \<or> readyState (videos w r) = HAVE_FUTURE_DATA)
                        \<and> v_width (videos w r) \<noteq> 0 \<and> v_height (videos w r) \<noteq> 0
                    then upd_video w r (\<lambda>v. v\<lparr>complete := True\<rparr>)
                    else w);
              t = next_tex w1;
              w2 = w1\<lparr>next_tex := Suc t,
                      textures := (textures w1)(t := BaseTexture_ctor dims r (videos w1 r))\<rparr>;
              w3 = upd_texture w2 t (\<lambda>x. x\<lparr>autoUpdate := False\<rparr>);
              w4 = (if \<not> complete (videos w3 r)
                    then addEventListener
                           (addEventListener
                             (addEventListener
                               (addEventListener w3 r ''canplay'' (OnCanPlay t))
                               r ''canplaythrough'' (OnCanPlay t))
                             r ''play'' (OnPlayStart t))
                           r ''pause'' (OnPlayStop t)
                    else w3)
          in Inr (upd_texture w4 t (\<lambda>x. x\<lparr>uu_loaded := False\<rparr>), t))"

text \<open>\<^verbatim>\<open>destroy\<close>, lines 151 to 160.\<close>

definition destroy :: "world \<Rightarrow> tex_ref \<Rightarrow> world" where
  "destroy w t =
     (let w1 = (case source (textures w t) of
                  None \<Rightarrow> w
                | Some r \<Rightarrow>
                    (case pixiId (videos w r) of
                       None \<Rightarrow> w
                     | Some k \<Rightarrow>
                         if k \<noteq> []
                         then upd_video (w\<lparr>BaseTextureCache := (BaseTextureCache w)(k := None)\<rparr>)
                                r (\<lambda>v. v\<lparr>pixiId := None\<rparr>)
                         else w))
      in BaseTexture_destroy w1 t)"

text \<open>
  The decimal digits of a number, as the template literal of line 174 renders the
  number that \<^verbatim>\<open>utils.uid()\<close> returns.
\<close>

definition digit :: "nat \<Rightarrow> char" where
  "digit d = ''0123456789'' ! d"

fun digits :: "nat \<Rightarrow> string" where
  "digits n = (if n < 10 then [digit n] else digits (n div 10) @ [digit (n mod 10)])"

definition tag :: "nat \<Rightarrow> string" where
  "tag n = ''video_'' @ digits n"

text \<open>
  The key that \<^verbatim>\<open>utils.BaseTextureCache[video._pixiId]\<close> looks up: the tag, or the
  string \<^verbatim>\<open>undefined\<close> for a property that is not set.
\<close>

fun property_key :: "string option \<Rightarrow> string" where
  "property_key None = ''undefined''"
| "property_key (Some k) = k"

text \<open>\<^verbatim>\<open>fromVideo\<close>, lines 170 to 186.\<close>

definition fromVideo :: "nat \<times> nat \<Rightarrow> world \<Rightarrow> vid_ref \<Rightarrow> error + world \<times> tex_ref" where
  "fromVideo dims w video =
     (let w1 = (if \<not> truthy (pixiId (videos w video))
                then (let (w', n) = uid w
                      in upd_video w' video (\<lambda>v. v\<lparr>pixiId := Some (tag n)\<rparr>))
                else w)
      in case BaseTextureCache w1 (property_key (pixiId (videos w1 video))) of
           Some baseTexture \<Rightarrow> Inr (w1, baseTexture)
         | None \<Rightarrow>
             (case VideoBaseTexture_ctor dims w1 (Some video) of
                Inl e \<Rightarrow> Inl e
              | Inr (w2, baseTexture) \<Rightarrow>
                  Inr (w2\<lparr>BaseTextureCache :=
                             (BaseTextureCache w2)
                               (property_key (pixiId (videos w2 video)) \<mapsto> baseTexture)\<rparr>,
                       baseTexture)))"

subsection \<open>Building a video element from URLs (lines 200 to 240)\<close>

text \<open>
  A source descriptor: a bare URL string, or an object whose \<^verbatim>\<open>src\<close> and
  \<^verbatim>\<open>mime\<close> may each be missing. The argument of \<^verbatim>\<open>fromUrl\<close> is one descriptor or an
  array of them.
\<close>

datatype descriptor = Url string | Desc "string option" "string option"

datatype videoSrc = One descriptor | Many "descriptor list"

text \<open>
  \<^verbatim>\<open>lastIndexOf\<close> and \<^verbatim>\<open>substr\<close> of JavaScript strings: the index of the last
  occurrence, or -1; the rest of the string from an index, counted from the end when it
  is negative.
\<close>

fun lastIndexOf :: "string \<Rightarrow> char \<Rightarrow> int" where
  "lastIndexOf [] c = - 1"
| "lastIndexOf (x # xs) c =
     (let i = lastIndexOf xs c in if 0 \<le> i then i + 1 else if x = c then 0 else - 1)"

definition substr :: "string \<Rightarrow> int \<Rightarrow> string" where
  "substr s i = (if i < 0 then drop (nat (int (length s) + i)) s else drop (nat i) s)"

text \<open>\<^verbatim>\<open>createSource\<close>, lines 227 to 240. Without a string to search, line 231 throws.\<close>

definition createSource :: "path \<Rightarrow> string option \<Rightarrow> error + source_decl" where
  "createSource p ty =
     (let inferred = (case p of
                        PathObj \<Rightarrow> Inl TypeError
                      | PathStr s \<Rightarrow> Inr (''video/'' @ substr s (lastIndexOf s CHR ''.'' + 1)));
          type = (if \<not> truthy ty then inferred
                  else (case ty of None \<Rightarrow> inferred | Some m \<Rightarrow> Inr m))
      in case type of
           Inl e \<Rightarrow> Inl e
         | Inr m \<Rightarrow> Inr \<lparr>s_src = p, s_type = m\<rparr>)"

text \<open>\<^verbatim>\<open>videoSrc[i].src || videoSrc[i]\<close> and \<^verbatim>\<open>videoSrc[i].mime\<close>.\<close>

fun descriptor_path :: "descriptor \<Rightarrow> path" where
  "descriptor_path (Url s) = PathStr s"
| "descriptor_path (Desc src mime) =
     (case src of None \<Rightarrow> PathObj | Some s \<Rightarrow> if s \<noteq> [] then PathStr s else PathObj)"

fun descriptor_mime :: "descriptor \<Rightarrow> string option" where
  "descriptor_mime (Url s) = None"
| "descriptor_mime (Desc src mime) = mime"

text \<open>
  Modelled from the spec: the video element that the element-creation collaborator
  creates (section 6). It has nothing loaded, no dimensions, no tag, no listeners and no
  children.
\<close>

definition blank_video :: video where
  "blank_video =
     \<lparr>readyState = HAVE_NOTHING, v_width = 0, v_height = 0, videoWidth = 0, videoHeight = 0,
      complete = False, pixiId = None, listeners = [], children = [],
      play_calls = 0, load_calls = 0\<rparr>"

text \<open>
  Modelled from the spec: \<^verbatim>\<open>document.createElement('video')\<close>, "create a resource
  element" (section 6): a new element is allocated in the heap of video elements.
\<close>

definition createElement_video :: "world \<Rightarrow> world \<times> vid_ref" where
  "createElement_video w =
     (w\<lparr>next_vid := Suc (next_vid w), videos := (videos w)(next_vid w := blank_video)\<rparr>,
      next_vid w)"

text \<open>
  Modelled from the spec: \<^verbatim>\<open>appendChild\<close>, "append child" (section 6): the child
  source declaration is added after the ones the element has.
\<close>

definition appendChild :: "world \<Rightarrow> vid_ref \<Rightarrow> source_decl \<Rightarrow> world" where
  "appendChild w r s = upd_video w r (\<lambda>v. v\<lparr>children := children v @ [s]\<rparr>)"

text \<open>The loop of lines 207 to 210; an exception of \<^verbatim>\<open>createSource\<close> ends it.\<close>

fun appendSources :: "world \<Rightarrow> vid_ref \<Rightarrow> descriptor list \<Rightarrow> error + world" where
  "appendSources w video [] = Inr w"
| "appendSources w video (d # ds) =
     (case createSource (descriptor_path d) (descriptor_mime d) of
        Inl e \<Rightarrow> Inl e
      | Inr s \<Rightarrow> appendSources (appendChild w video s) video ds)"

text \<open>\<^verbatim>\<open>fromUrl\<close> (also \<^verbatim>\<open>fromUrls\<close>), lines 200 to 222.\<close>

definition fromUrl :: "nat \<times> nat \<Rightarrow> world \<Rightarrow> videoSrc \<Rightarrow> error + world \<times> tex_ref" where
  "fromUrl dims w videoSrc =
     (let (w1, video) = createElement_video w in
      case (case videoSrc of
              Many ds \<Rightarrow> appendSources w1 video ds
            | One d \<Rightarrow>
                (case createSource (descriptor_path d) (descriptor_mime d) of
                   Inl e \<Rightarrow> Inl e
                 | Inr s \<Rightarrow> Inr (appendChild w1 video s))) of
        Inl e \<Rightarrow> Inl e
      | Inr w2 \<Rightarrow> fromVideo dims (play (load w2 video) video) video)"

subsection \<open>Signals and lifetimes\<close>

text \<open>A callback of this file, run by the host.\<close>

fun invoke :: "world \<Rightarrow> callback \<Rightarrow> world" where
  "invoke w (OnCanPlay t) = onCanPlay w t"
| "invoke w (OnPlayStart t) = onPlayStart w t"
| "invoke w (OnPlayStop t) = onPlayStop w t"
| "invoke w (OnUpdate t) = onUpdate w t"

text \<open>
  Modelled from the spec: the delivery of a signal by the video element (sections 5
  and 6). The listeners registered for the event when it is dispatched run in the order
  of their registration; one that an earlier listener has removed does not run.
\<close>

fun deliver :: "world \<Rightarrow> vid_ref \<Rightarrow> string \<Rightarrow> callback list \<Rightarrow> world" where
  "deliver w r ev [] = w"
| "deliver w r ev (cb # cbs) =
     deliver (if (ev, cb) \<in> set (listeners (videos w r)) then invoke w cb else w) r ev cbs"

text \<open>
  Modelled from the spec: one signal of a video element (section 6), delivered to the
  listeners that are registered for it at that moment.
\<close>

definition dispatch :: "world \<Rightarrow> vid_ref \<Rightarrow> string \<Rightarrow> world" where
  "dispatch w r ev =
     deliver w r ev (map snd (filter (\<lambda>l. fst l = ev) (listeners (videos w r))))"

text \<open>A sequence of signals, each delivered by some video element.\<close>

fun signals :: "world \<Rightarrow> (vid_ref \<times> string) list \<Rightarrow> world" where
  "signals w [] = w"
| "signals w ((r, ev) # ss) = signals (dispatch w r ev) ss"

text \<open>
  A sequence of invocations of \<^verbatim>\<open>_onCanPlay\<close> on one texture. Each entry is the
  resource reference the invocation finds in \<^verbatim>\<open>this.source\<close>: \<open>None\<close> when the
  reference is absent.
\<close>

fun canPlays :: "world \<Rightarrow> tex_ref \<Rightarrow> vid_ref option list \<Rightarrow> world" where
  "canPlays w t [] = w"
| "canPlays w t (s # ss) =
     canPlays (onCanPlay (upd_texture w t (\<lambda>x. x\<lparr>source := s\<rparr>)) t) t ss"

text \<open>How often \<^verbatim>\<open>loaded\<close> has been emitted by a texture, carrying that texture.\<close>

definition loaded_count :: "world \<Rightarrow> tex_ref \<Rightarrow> nat" where
  "loaded_count w t = count_list (emitted w) (t, ''loaded'', t)"

text \<open>
  The emissions of \<^verbatim>\<open>loaded\<close> so far, plus the one that is still to come while
  \<^verbatim>\<open>__loaded\<close> is false.
\<close>

definition loaded_potential :: "world \<Rightarrow> tex_ref \<Rightarrow> nat" where
  "loaded_potential w t = loaded_count w t + (if uu_loaded (textures w t) then 0 else 1)"

text \<open>The text after the last dot of a string (the whole string when it has no dot).\<close>

definition after_last_dot :: "string \<Rightarrow> string" where
  "after_last_dot s = rev (takeWhile (\<lambda>c. c \<noteq> CHR ''.'') (rev s))"

text \<open>
  The file extension of a URL, in the words of the spec and of the docstring of
  \<^verbatim>\<open>fromUrl\<close> (lines 195 and 196, "the url's extension"). A URL is a scheme and an
  authority (both optional), a path, and an optional query or fragment. The query and
  the fragment start at the first \<^verbatim>\<open>?\<close> or \<^verbatim>\<open>#\<close>; the authority follows
  \<^verbatim>\<open>://\<close> and ends before the next slash; the file name is the last segment of the
  path; the extension is the text after the last dot of the file name, and there is
  none when the file name has no dot.
\<close>

definition strip_query :: "string \<Rightarrow> string" where
  "strip_query url = takeWhile (\<lambda>c. c \<noteq> CHR ''?'' \<and> c \<noteq> CHR ''#'') url"

fun after_scheme :: "string \<Rightarrow> string option" where
  "after_scheme [] = None"
| "after_scheme (c # cs) =
     (if take 3 (c # cs) = ''://'' then Some (drop 3 (c # cs)) else after_scheme cs)"

definition url_path :: "string \<Rightarrow> string" where
  "url_path url =
     (case after_scheme (strip_query url) of
        None \<Rightarrow> strip_query url
      | Some rest \<Rightarrow> dropWhile (\<lambda>c. c \<noteq> CHR ''/'') rest)"

definition url_file_name :: "string \<Rightarrow> string" where
  "url_file_name url = rev (takeWhile (\<lambda>c. c \<noteq> CHR ''/'') (rev (url_path url)))"

definition url_file_extension :: "string \<Rightarrow> string option" where
  "url_file_extension url =
     (let name = url_file_name url
      in if CHR ''.'' \<in> set name then Some (after_last_dot name) else None)"

text \<open>A descriptor that names a URL: a bare string, or an object with a non-empty \<^verbatim>\<open>src\<close>.\<close>

fun has_url :: "descriptor \<Rightarrow> bool" where
  "has_url (Url s) = True"
| "has_url (Desc src mime) = truthy src"

subsection \<open>Well-formed stores\<close>

text \<open>
  The stores the program reaches: the tags that \<^verbatim>\<open>fromVideo\<close> has yet to issue are
  neither keys of the cache nor attached to an element, and the textures that the cache
  and the registered listeners refer to have been allocated.
\<close>

definition tags_fresh :: "world \<Rightarrow> bool" where
  "tags_fresh w \<longleftrightarrow> (\<forall>n. nextUid w < n \<longrightarrow> BaseTextureCache w (tag n) = None)"

definition tags_issued :: "world \<Rightarrow> bool" where
  "tags_issued w \<longleftrightarrow> (\<forall>r n. pixiId (videos w r) = Some (tag n) \<longrightarrow> n \<le> nextUid w)"

definition cache_allocated :: "world \<Rightarrow> bool" where
  "cache_allocated w \<longleftrightarrow> (\<forall>k t. BaseTextureCache w k = Some t \<longrightarrow> t < next_tex w)"

definition listeners_allocated :: "world \<Rightarrow> bool" where
  "listeners_allocated w \<longleftrightarrow>
     (\<forall>r l. l \<in> set (listeners (videos w r)) \<longrightarrow> callback_texture (snd l) < next_tex w)"

definition wf_world :: "world \<Rightarrow> bool" where
  "wf_world w \<longleftrightarrow> tags_fresh w \<and> tags_issued w \<and> cache_allocated w \<and> listeners_allocated w"

text \<open>
  A texture that no signal can start: no element has a listener that runs its
  \<^verbatim>\<open>_onPlayStart\<close>, and its \<^verbatim>\<open>autoUpdate\<close> is false.
\<close>

definition not_started :: "world \<Rightarrow> tex_ref \<Rightarrow> bool" where
  "not_started w t \<longleftrightarrow>
     (\<forall>r ev. (ev, OnPlayStart t) \<notin> set (listeners (videos w r)))
     \<and> \<not> autoUpdate (textures w t)"

subsection \<open>Example stores\<close>

text \<open>The store before anything has been created.\<close>

definition empty_world :: world where
  "empty_world =
     \<lparr>videos = (\<lambda>_. blank_video),
      textures = (\<lambda>_. \<lparr>source = None, hasLoaded = False, width = 0, height = 0,
                       autoUpdate = False, uu_loaded = False\<rparr>),
      next_vid = 0, next_tex = 0, BaseTextureCache = Map.empty, nextUid = 0,
      raf = [], emitted = [], updates = []\<rparr>"

text \<open>
  A store with two video elements: element 0 has nothing loaded yet, element 1 has
  buffered enough data and has a size of 640 by 360.
\<close>

definition two_videos :: world where
  "two_videos =
     empty_world\<lparr>next_vid := 2,
       videos := (\<lambda>_. blank_video)
         (0 := blank_video\<lparr>videoWidth := 320, videoHeight := 240\<rparr>,
          1 := blank_video\<lparr>readyState := HAVE_ENOUGH_DATA, v_width := 640, v_height := 360,
                            videoWidth := 640, videoHeight := 360\<rparr>)\<rparr>"

text \<open>
  The store after \<^verbatim>\<open>fromVideo\<close> has wrapped element 0 of \<open>two_videos\<close>: texture 0
  waits for the element's signals.
\<close>

definition waiting_example :: world where
  "waiting_example =
     \<lparr>videos = (\<lambda>_. blank_video)
         (0 := blank_video\<lparr>videoWidth := 320, videoHeight := 240, pixiId := Some ''video_1'',
                listeners := [(''canplay'', OnCanPlay 0), (''canplaythrough'', OnCanPlay 0),
                              (''play'', OnPlayStart 0), (''pause'', OnPlayStop 0)]\<rparr>,
          1 := blank_video\<lparr>readyState := HAVE_ENOUGH_DATA, v_width := 640, v_height := 360,
                            videoWidth := 640, videoHeight := 360\<rparr>),
      textures = (\<lambda>_. \<lparr>source = None, hasLoaded = False, width = 0, height = 0,
                       autoUpdate = False, uu_loaded = False\<rparr>)
         (0 := \<lparr>source = Some 0, hasLoaded = False, width = 100, height = 100,
                autoUpdate = False, uu_loaded = False\<rparr>),
      next_vid = 2, next_tex = 1, BaseTextureCache = [''video_1'' \<mapsto> 0], nextUid = 1,
      raf = [], emitted = [], updates = []\<rparr>"

text \<open>The same store after texture 0 has been destroyed: its listeners are still registered.\<close>

definition destroyed_example :: world where
  "destroyed_example = destroy waiting_example 0"

text \<open>The store after the constructor alone has wrapped element 0 of \<open>two_videos\<close>.\<close>

definition constructed_example :: world where
  "constructed_example =
     waiting_example\<lparr>BaseTextureCache := Map.empty, nextUid := 0,
       videos := (videos waiting_example)
         (0 := (videos waiting_example 0)\<lparr>pixiId := None\<rparr>)\<rparr>"

text \<open>
  The store after \<^verbatim>\<open>fromUrl\<close> has built an element from the two URLs
  \<^verbatim>\<open>a.webm\<close> and \<^verbatim>\<open>a.mp4\<close> in the empty store.
\<close>

definition url_example :: world where
  "url_example =
     \<lparr>videos = (\<lambda>_. blank_video)
         (0 := blank_video\<lparr>pixiId := Some ''video_1'',
                listeners := [(''canplay'', OnCanPlay 0), (''canplaythrough'', OnCanPlay 0),
                              (''play'', OnPlayStart 0), (''pause'', OnPlayStop 0)],
                children := [\<lparr>s_src = PathStr ''a.webm'', s_type = ''video/webm''\<rparr>,
                             \<lparr>s_src = PathStr ''a.mp4'', s_type = ''video/mp4''\<rparr>],
                play_calls := 1, load_calls := 1\<rparr>),
      textures = (\<lambda>_. \<lparr>source = None, hasLoaded = False, width = 0, height = 0,
                       autoUpdate = False, uu_loaded = False\<rparr>)
         (0 := \<lparr>source = Some 0, hasLoaded = False, width = 100, height = 100,
                autoUpdate = False, uu_loaded = False\<rparr>),
      next_vid = 1, next_tex = 1, BaseTextureCache = [''video_1'' \<mapsto> 0], nextUid = 1,
      raf = [], emitted = [], updates = []\<rparr>"

section \<open>Properties\<close>

subsection \<open>Reading the store after an update\<close>

declare digits.simps [simp del]

lemma upd_texture_fields [simp]:
  "textures (upd_texture w t f) = (textures w)(t := f (textures w t))"
  "videos (upd_texture w t f) = videos w"
  "next_vid (upd_texture w t f) = next_vid w"
  "next_tex (upd_texture w t f) = next_tex w"
  "BaseTextureCache (upd_texture w t f) = BaseTextureCache w"
  "nextUid (upd_texture w t f) = nextUid w"
  "raf (upd_texture w t f) = raf w"
  "emitted (upd_texture w t f) = emitted w"
  "updates (upd_texture w t f) = updates w"
  by (simp_all add: upd_texture_def)

lemma upd_video_fields [simp]:
  "videos (upd_video w r g) = (videos w)(r := g (videos w r))"
  "textures (upd_video w r g) = textures w"
  "next_vid (upd_video w r g) = next_vid w"
  "next_tex (upd_video w r g) = next_tex w"
  "BaseTextureCache (upd_video w r g) = BaseTextureCache w"
  "nextUid (upd_video w r g) = nextUid w"
  "raf (upd_video w r g) = raf w"
  "emitted (upd_video w r g) = emitted w"
  "updates (upd_video w r g) = updates w"
  by (simp_all add: upd_video_def)

lemma requestAnimationFrame_fields [simp]:
  "raf (requestAnimationFrame w cb) = raf w @ [cb]"
  "videos (requestAnimationFrame w cb) = videos w"
  "textures (requestAnimationFrame w cb) = textures w"
  "next_vid (requestAnimationFrame w cb) = next_vid w"
  "next_tex (requestAnimationFrame w cb) = next_tex w"
  "BaseTextureCache (requestAnimationFrame w cb) = BaseTextureCache w"
  "nextUid (requestAnimationFrame w cb) = nextUid w"
  "emitted (requestAnimationFrame w cb) = emitted w"
  "updates (requestAnimationFrame w cb) = updates w"
  by (simp_all add: requestAnimationFrame_def)

lemma emit_fields [simp]:
  "emitted (emit w t name arg) = emitted w @ [(t, name, arg)]"
  "videos (emit w t name arg) = videos w"
  "textures (emit w t name arg) = textures w"
  "next_vid (emit w t name arg) = next_vid w"
  "next_tex (emit w t name arg) = next_tex w"
  "BaseTextureCache (emit w t name arg) = BaseTextureCache w"
  "nextUid (emit w t name arg) = nextUid w"
  "raf (emit w t name arg) = raf w"
  "updates (emit w t name arg) = updates w"
  by (simp_all add: emit_def)

lemma update_fields [simp]:
  "updates (update w t) = updates w @ [t]"
  "videos (update w t) = videos w"
  "textures (update w t) = textures w"
  "next_vid (update w t) = next_vid w"
  "next_tex (update w t) = next_tex w"
  "BaseTextureCache (update w t) = BaseTextureCache w"
  "nextUid (update w t) = nextUid w"
  "raf (update w t) = raf w"
  "emitted (update w t) = emitted w"
  by (simp_all add: update_def)

lemmas element_defs = addEventListener_def removeEventListener_def play_def load_def

subsection \<open>The example stores\<close>

lemma tag_Suc_0: "tag (Suc 0) = ''video_1''"
  by (simp add: tag_def digits.simps digit_def)

lemma ctor_two_videos:
  "VideoBaseTexture_ctor (100, 100) two_videos (Some 0) = Inr (constructed_example, 0)"
  by (simp add: VideoBaseTexture_ctor_def BaseTexture_ctor_def two_videos_def empty_world_def
      constructed_example_def waiting_example_def blank_video_def addEventListener_def
      upd_video_def upd_texture_def Let_def fun_eq_iff)

lemma fromVideo_two_videos:
  "fromVideo (100, 100) two_videos 0 = Inr (waiting_example, 0)"
  by (simp add: fromVideo_def uid_def VideoBaseTexture_ctor_def BaseTexture_ctor_def
      two_videos_def empty_world_def waiting_example_def blank_video_def tag_Suc_0
      addEventListener_def upd_video_def upd_texture_def Let_def fun_eq_iff)

lemma waiting_example_texture:
  "textures waiting_example 0 =
     \<lparr>source = Some 0, hasLoaded = False, width = 100, height = 100,
      autoUpdate = False, uu_loaded = False\<rparr>"
  by (simp add: waiting_example_def)

lemma waiting_example_video:
  "videoWidth (videos waiting_example 0) = 320"
  "videoHeight (videos waiting_example 0) = 240"
  "listeners (videos waiting_example 0) =
     [(''canplay'', OnCanPlay 0), (''canplaythrough'', OnCanPlay 0),
      (''play'', OnPlayStart 0), (''pause'', OnPlayStop 0)]"
  "pixiId (videos waiting_example 0) = Some ''video_1''"
  by (simp_all add: waiting_example_def)

lemma waiting_example_logs:
  "raf waiting_example = []" "emitted waiting_example = []" "updates waiting_example = []"
  by (simp_all add: waiting_example_def)

lemma destroyed_example_fields:
  "source (textures destroyed_example 0) = None"
  "hasLoaded (textures destroyed_example 0) = False"
  "uu_loaded (textures destroyed_example 0) = False"
  "listeners (videos destroyed_example 0) = listeners (videos waiting_example 0)"
  "emitted destroyed_example = []"
  by (simp_all add: destroyed_example_def destroy_def BaseTexture_destroy_def waiting_example_def)

subsection \<open>What \<^verbatim>\<open>_onCanPlay\<close> changes\<close>

lemma onCanPlay_absent_eq:
  "source (textures w t) = None \<Longrightarrow>
     onCanPlay w t = upd_texture w t (\<lambda>x. x\<lparr>hasLoaded := True\<rparr>)"
  by (simp add: onCanPlay_def)

lemma onCanPlay_other_texture:
  "t' \<noteq> t \<Longrightarrow> textures (onCanPlay w t) t' = textures w t'"
  by (cases "source (textures w t)") (simp_all add: onCanPlay_def element_defs Let_def)

lemma onCanPlay_flags:
  "hasLoaded (textures (onCanPlay w t) t)"
  "autoUpdate (textures (onCanPlay w t) t) = autoUpdate (textures w t)"
  "source (textures (onCanPlay w t) t) = source (textures w t)"
  "uu_loaded (textures (onCanPlay w t) t) \<longleftrightarrow>
     uu_loaded (textures w t) \<or> source (textures w t) \<noteq> None"
  by (cases "source (textures w t)"; simp add: onCanPlay_def element_defs Let_def)+

lemma onCanPlay_dimensions:
  "source (textures w t) = Some r \<Longrightarrow>
     width (textures (onCanPlay w t) t) = videoWidth (videos w r) \<and>
     height (textures (onCanPlay w t) t) = videoHeight (videos w r)"
  by (simp add: onCanPlay_def element_defs Let_def)

lemma onCanPlay_emitted:
  "emitted (onCanPlay w t) =
     (if source (textures w t) \<noteq> None \<and> \<not> uu_loaded (textures w t)
      then emitted w @ [(t, ''loaded'', t)] else emitted w)"
  by (cases "source (textures w t)") (simp_all add: onCanPlay_def element_defs Let_def)

lemma onCanPlay_videos:
  "videos (onCanPlay w t) =
     (case source (textures w t) of
        None \<Rightarrow> videos w
      | Some r \<Rightarrow> (videos w)(r := (videos w r)
          \<lparr>listeners := removeAll (''canplaythrough'', OnCanPlay t)
                          (removeAll (''canplay'', OnCanPlay t) (listeners (videos w r))),
           play_calls := Suc (play_calls (videos w r))\<rparr>))"
  by (cases "source (textures w t)") (simp_all add: onCanPlay_def element_defs Let_def)

lemma onCanPlay_rest:
  "raf (onCanPlay w t) = raf w"
  "updates (onCanPlay w t) = updates w"
  "next_tex (onCanPlay w t) = next_tex w"
  "next_vid (onCanPlay w t) = next_vid w"
  "BaseTextureCache (onCanPlay w t) = BaseTextureCache w"
  "nextUid (onCanPlay w t) = nextUid w"
  by (cases "source (textures w t)"; simp add: onCanPlay_def element_defs Let_def)+

lemma onCanPlay_listeners:
  "set (listeners (videos (onCanPlay w t) r)) \<subseteq> set (listeners (videos w r))"
  by (cases "source (textures w t)") (auto simp add: onCanPlay_videos)

lemma onCanPlay_video_fields:
  "videoWidth (videos (onCanPlay w t) r) = videoWidth (videos w r)"
  "videoHeight (videos (onCanPlay w t) r) = videoHeight (videos w r)"
  "pixiId (videos (onCanPlay w t) r) = pixiId (videos w r)"
  by (cases "source (textures w t)"; simp add: onCanPlay_videos)+

subsection \<open>Readiness (C1, C2, C3)\<close>

text \<open>
  C1, as stated, fails: on the destroyed texture of \<open>destroyed_example\<close>, whose resource
  reference is absent and whose \<^verbatim>\<open>canplay\<close> listener is still registered,
  \<^verbatim>\<open>_onCanPlay\<close> changes \<^verbatim>\<open>hasLoaded\<close> from false to true (line 126 runs before the
  test of line 128).
\<close>

theorem onCanPlay_absent_counterexample:
  "source (textures destroyed_example 0) = None
   \<and> (''canplay'', OnCanPlay 0) \<in> set (listeners (videos destroyed_example 0))
   \<and> hasLoaded (textures (onCanPlay destroyed_example 0) 0)
       \<noteq> hasLoaded (textures destroyed_example 0)"
  by (simp add: destroyed_example_fields waiting_example_video onCanPlay_flags)

text \<open>
  C1, as amended: when \<^verbatim>\<open>_onCanPlay\<close> fires on a texture whose resource reference is
  absent, it sets \<^verbatim>\<open>hasLoaded\<close> to true and does nothing else: every other field of
  the texture and every other texture are unchanged, no listener is detached from any
  element, and nothing is emitted.
\<close>

theorem onCanPlay_absent:
  assumes "source (textures w t) = None"
  shows "onCanPlay w t = w\<lparr>textures := (textures w)(t := (textures w t)\<lparr>hasLoaded := True\<rparr>)\<rparr>
         \<and> videos (onCanPlay w t) = videos w
         \<and> emitted (onCanPlay w t) = emitted w"
  using assms by (simp add: onCanPlay_absent_eq upd_texture_def)

theorem onCanPlay_absent_witness:
  "source (textures destroyed_example 0) = None
   \<and> textures (onCanPlay destroyed_example 0) 0
       = (textures destroyed_example 0)\<lparr>hasLoaded := True\<rparr>
   \<and> listeners (videos (onCanPlay destroyed_example 0) 0)
       = [(''canplay'', OnCanPlay 0), (''canplaythrough'', OnCanPlay 0),
          (''play'', OnPlayStart 0), (''pause'', OnPlayStop 0)]
   \<and> emitted (onCanPlay destroyed_example 0) = []"
  using onCanPlay_absent [of destroyed_example 0]
  by (simp add: destroyed_example_fields waiting_example_video)

subsection \<open>Identity tags\<close>

lemma digit_inj: "a < 10 \<Longrightarrow> b < 10 \<Longrightarrow> digit a = digit b \<Longrightarrow> a = b"
proof -
  assume "a < 10" "b < 10" "digit a = digit b"
  moreover have "distinct ''0123456789''" by simp
  ultimately show "a = b"
    unfolding digit_def by (simp add: nth_eq_iff_index_eq)
qed

lemma digits_nonempty: "digits n \<noteq> []"
  by (subst digits.simps) simp

lemma digits_length: "length (digits n) = Suc 0 \<longleftrightarrow> n < 10"
proof (cases "n < 10")
  case True
  then show ?thesis by (subst digits.simps) simp
next
  case False
  have "digits (n div 10) \<noteq> []" by (rule digits_nonempty)
  then have "length (digits (n div 10)) \<noteq> 0" by simp
  with False show ?thesis by (subst digits.simps) simp
qed

lemma digits_inj: "digits m = digits n \<Longrightarrow> m = n"
proof (induction n arbitrary: m rule: digits.induct)
  case (1 n)
  show ?case
  proof (cases "n < 10")
    case True
    with "1.prems" have "length (digits m) = Suc 0" by (simp add: digits_length)
    then have m: "m < 10" by (simp add: digits_length)
    with True "1.prems" have "[digit m] = [digit n]"
      by (simp add: digits.simps [of m] digits.simps [of n])
    with m True show ?thesis by (simp add: digit_inj)
  next
    case False
    with "1.prems" have "length (digits m) \<noteq> Suc 0" by (simp add: digits_length)
    then have m: "\<not> m < 10" by (simp add: digits_length)
    with False "1.prems"
    have "digits (m div 10) @ [digit (m mod 10)] = digits (n div 10) @ [digit (n mod 10)]"
      by (simp add: digits.simps [of m] digits.simps [of n])
    then have q: "digits (m div 10) = digits (n div 10)"
      and d: "digit (m mod 10) = digit (n mod 10)"
      by simp_all
    from "1.IH" [OF False q] have "m div 10 = n div 10" .
    moreover from d have "m mod 10 = n mod 10" by (simp add: digit_inj)
    ultimately show ?thesis by (metis div_mult_mod_eq)
  qed
qed

lemma tag_inj: "tag m = tag n \<longleftrightarrow> m = n"
  by (auto simp add: tag_def dest: digits_inj)

lemma tag_nonempty [simp]: "tag n \<noteq> []"
  by (simp add: tag_def)

subsection \<open>What the constructor changes\<close>

lemma ctor_returns:
  "\<exists>w'. VideoBaseTexture_ctor dims w (Some r) = Inr (w', next_tex w)"
  by (simp add: VideoBaseTexture_ctor_def Let_def)

lemma ctor_summary:
  "case VideoBaseTexture_ctor dims w (Some r) of
     Inl e \<Rightarrow> False
   | Inr (w', t) \<Rightarrow>
       t = next_tex w \<and> next_tex w' = Suc (next_tex w) \<and> next_vid w' = next_vid w
       \<and> BaseTextureCache w' = BaseTextureCache w \<and> nextUid w' = nextUid w
       \<and> raf w' = raf w \<and> emitted w' = emitted w \<and> updates w' = updates w
       \<and> source (textures w' t) = Some r \<and> \<not> autoUpdate (textures w' t)
       \<and> \<not> uu_loaded (textures w' t)
       \<and> (\<forall>t'. t' \<noteq> t \<longrightarrow> textures w' t' = textures w t')
       \<and> (\<forall>r'. pixiId (videos w' r') = pixiId (videos w r'))
       \<and> (\<forall>r'. children (videos w' r') = children (videos w r'))"
  by (cases "(readyState (videos w r) = HAVE_ENOUGH_DATA
               \<or> readyState (videos w r) = HAVE_FUTURE_DATA)
              \<and> v_width (videos w r) \<noteq> 0 \<and> v_height (videos w r) \<noteq> 0";
      cases "complete (videos w r)";
      simp add: VideoBaseTexture_ctor_def BaseTexture_ctor_def element_defs Let_def)

lemma ctor_counters:
  assumes "VideoBaseTexture_ctor dims w (Some r) = Inr (w', t)"
  shows "t = next_tex w" "next_tex w' = Suc (next_tex w)" "next_vid w' = next_vid w"
    "BaseTextureCache w' = BaseTextureCache w" "nextUid w' = nextUid w"
    "raf w' = raf w" "emitted w' = emitted w" "updates w' = updates w"
  using ctor_summary [where dims = dims and w = w and r = r] assms by auto

lemma ctor_textures:
  assumes "VideoBaseTexture_ctor dims w (Some r) = Inr (w', t)"
  shows "source (textures w' t) = Some r" "\<not> autoUpdate (textures w' t)"
    "\<not> uu_loaded (textures w' t)" "t' \<noteq> t \<Longrightarrow> textures w' t' = textures w t'"
  using ctor_summary [where dims = dims and w = w and r = r] assms by auto

lemma ctor_pixiId:
  assumes "VideoBaseTexture_ctor dims w (Some r) = Inr (w', t)"
  shows "pixiId (videos w' r') = pixiId (videos w r')"
  using ctor_summary [where dims = dims and w = w and r = r] assms by auto

lemma ctor_children:
  assumes "VideoBaseTexture_ctor dims w (Some r) = Inr (w', t)"
  shows "children (videos w' r') = children (videos w r')"
  using ctor_summary [where dims = dims and w = w and r = r] assms by auto

lemma ctor_listeners_ready:
  assumes "VideoBaseTexture_ctor dims w (Some r) = Inr (w', t)"
    and "readyState (videos w r) = HAVE_ENOUGH_DATA \<or> readyState (videos w r) = HAVE_FUTURE_DATA"
    and "v_width (videos w r) \<noteq> 0" and "v_height (videos w r) \<noteq> 0"
  shows "listeners (videos w' r') = listeners (videos w r')"
proof -
  from assms(2-4)
  have "case VideoBaseTexture_ctor dims w (Some r) of
          Inl e \<Rightarrow> False
        | Inr (w', t) \<Rightarrow> listeners (videos w' r') = listeners (videos w r')"
    by (simp add: VideoBaseTexture_ctor_def element_defs Let_def)
  with assms(1) show ?thesis by simp
qed

lemma ctor_listeners:
  assumes "VideoBaseTexture_ctor dims w (Some r) = Inr (w', t)"
    and "l \<in> set (listeners (videos w' r'))"
  shows "l \<in> set (listeners (videos w r')) \<or> callback_texture (snd l) = t"
proof -
  have "case VideoBaseTexture_ctor dims w (Some r) of
          Inl e \<Rightarrow> False
        | Inr (w', t) \<Rightarrow>
            set (listeners (videos w' r')) \<subseteq>
              set (listeners (videos w r')) \<union>
                {(''canplay'', OnCanPlay t), (''canplaythrough'', OnCanPlay t),
                 (''play'', OnPlayStart t), (''pause'', OnPlayStop t)}"
    by (cases "(readyState (videos w r) = HAVE_ENOUGH_DATA
                 \<or> readyState (videos w r) = HAVE_FUTURE_DATA)
                \<and> v_width (videos w r) \<noteq> 0 \<and> v_height (videos w r) \<noteq> 0";
        cases "complete (videos w r)";
        auto simp add: VideoBaseTexture_ctor_def element_defs Let_def)
  with assms show ?thesis by auto
qed

lemma ctor_uu_loaded:
  assumes "VideoBaseTexture_ctor dims w0 src = Inr (w, t)"
  shows "\<not> uu_loaded (textures w t) \<and> emitted w = emitted w0"
proof (cases src)
  case None
  with assms show ?thesis by (simp add: VideoBaseTexture_ctor_def)
next
  case (Some r)
  with assms have "VideoBaseTexture_ctor dims w0 (Some r) = Inr (w, t)" by simp
  from ctor_textures(3) [OF this] ctor_counters(7) [OF this] show ?thesis by simp
qed

lemma onCanPlay_potential:
  "loaded_potential (onCanPlay w t') t = loaded_potential w t"
proof (cases "t' = t")
  case True
  then show ?thesis
    by (simp add: loaded_potential_def loaded_count_def onCanPlay_emitted onCanPlay_flags)
next
  case False
  then show ?thesis
    by (simp add: loaded_potential_def loaded_count_def onCanPlay_emitted
        onCanPlay_other_texture)
qed

lemma onPlayStart_potential:
  "loaded_potential (onPlayStart w t') t = loaded_potential w t"
proof -
  have "loaded_potential (upd_texture (requestAnimationFrame w1 cb) t' (\<lambda>x. x\<lparr>autoUpdate := True\<rparr>)) t
          = loaded_potential w1 t" for w1 cb
    by (simp add: loaded_potential_def loaded_count_def)
  then show ?thesis
    by (simp add: onPlayStart_def Let_def onCanPlay_potential)
qed

lemma invoke_potential:
  "loaded_potential (invoke w cb) t = loaded_potential w t"
proof (cases cb)
  case (OnCanPlay t')
  then show ?thesis by (simp add: onCanPlay_potential)
next
  case (OnPlayStart t')
  then show ?thesis by (simp add: onPlayStart_potential)
next
  case (OnPlayStop t')
  then show ?thesis by (simp add: onPlayStop_def loaded_potential_def loaded_count_def)
next
  case (OnUpdate t')
  then show ?thesis by (simp add: onUpdate_def loaded_potential_def loaded_count_def)
qed

lemma deliver_potential:
  "loaded_potential (deliver w r ev cbs) t = loaded_potential w t"
  by (induction cbs arbitrary: w) (simp_all add: invoke_potential)

lemma signals_potential:
  "loaded_potential (signals w sigs) t = loaded_potential w t"
proof (induction sigs arbitrary: w)
  case Nil
  show ?case by simp
next
  case (Cons s sigs)
  obtain r ev where "s = (r, ev)" by (cases s)
  with Cons.IH [of "dispatch w r ev"] show ?case
    by (simp add: dispatch_def deliver_potential)
qed

lemma canPlays_potential:
  "loaded_potential (canPlays w t ss) t = loaded_potential w t"
proof (induction ss arbitrary: w)
  case Nil
  show ?case by simp
next
  case (Cons s ss)
  have "loaded_potential (upd_texture w t (\<lambda>x. x\<lparr>source := s\<rparr>)) t = loaded_potential w t"
    by (simp add: loaded_potential_def loaded_count_def)
  with Cons.IH [of "onCanPlay (upd_texture w t (\<lambda>x. x\<lparr>source := s\<rparr>)) t"] show ?case
    by (simp add: onCanPlay_potential)
qed

lemma canPlays_dispatched:
  "uu_loaded (textures w t) \<or> Some r \<in> set ss \<Longrightarrow> uu_loaded (textures (canPlays w t ss) t)"
proof (induction ss arbitrary: w)
  case Nil
  then show ?case by simp
next
  case (Cons s ss)
  let ?w = "onCanPlay (upd_texture w t (\<lambda>x. x\<lparr>source := s\<rparr>)) t"
  from Cons.prems have "uu_loaded (textures ?w t) \<or> Some r \<in> set ss"
    by (auto simp add: onCanPlay_flags)
  then have "uu_loaded (textures (canPlays ?w t ss) t)" by (rule Cons.IH)
  then show ?case by simp
qed

text \<open>
  C2: take a texture as its constructor leaves it, then any signals that the elements
  deliver, then any sequence of invocations of \<^verbatim>\<open>_onCanPlay\<close> on the texture, each
  finding the resource reference present or absent. If one of these invocations finds a
  resource, \<^verbatim>\<open>loaded\<close> carrying the texture has been emitted exactly once since the
  construction; in no case has it been emitted twice.
\<close>

theorem loaded_emitted_once:
  assumes "VideoBaseTexture_ctor dims w0 src = Inr (w, t)"
  shows "(Some r \<in> set ss \<longrightarrow>
            loaded_count (canPlays (signals w sigs) t ss) t = Suc (loaded_count w0 t))
         \<and> loaded_count (canPlays (signals w sigs) t ss) t \<le> Suc (loaded_count w0 t)"
proof -
  let ?w = "canPlays (signals w sigs) t ss"
  from ctor_uu_loaded [OF assms] have "loaded_potential w t = Suc (loaded_count w0 t)"
    by (simp add: loaded_potential_def loaded_count_def)
  then have p: "loaded_potential ?w t = Suc (loaded_count w0 t)"
    by (simp add: canPlays_potential signals_potential)
  then have "loaded_count ?w t \<le> Suc (loaded_count w0 t)"
    by (simp add: loaded_potential_def split: if_splits)
  moreover have "loaded_count ?w t = Suc (loaded_count w0 t)" if "Some r \<in> set ss"
  proof -
    from that have "uu_loaded (textures ?w t)"
      by (intro canPlays_dispatched [where r = r] disjI2)
    with p show ?thesis by (simp add: loaded_potential_def)
  qed
  ultimately show ?thesis by simp
qed

theorem loaded_emitted_once_witness:
  "VideoBaseTexture_ctor (100, 100) two_videos (Some 0) = Inr (constructed_example, 0)
   \<and> Some 0 \<in> set [None, Some 0, Some 0, None, Some 1]
   \<and> loaded_count
         (canPlays (signals constructed_example [(0, ''play''), (0, ''canplay'')]) 0
            [None, Some 0, Some 0, None, Some 1]) 0 = 1"
proof -
  have "loaded_count two_videos 0 = 0"
    by (simp add: loaded_count_def two_videos_def empty_world_def)
  with loaded_emitted_once [OF ctor_two_videos,
      of 0 "[None, Some 0, Some 0, None, Some 1]" "[(0, ''play''), (0, ''canplay'')]"]
  show ?thesis
    by (simp del: canPlays.simps signals.simps add: ctor_two_videos)
qed

text \<open>
  C3: after \<^verbatim>\<open>_onCanPlay\<close> has fired on a texture that has a resource, the width and
  height of the texture are the \<^verbatim>\<open>videoWidth\<close> and \<^verbatim>\<open>videoHeight\<close> of the resource
  (which the handler leaves as they were).
\<close>

theorem onCanPlay_native_size:
  assumes "source (textures w t) = Some r"
  shows "width (textures (onCanPlay w t) t) = videoWidth (videos (onCanPlay w t) r)
         \<and> height (textures (onCanPlay w t) t) = videoHeight (videos (onCanPlay w t) r)
         \<and> videoWidth (videos (onCanPlay w t) r) = videoWidth (videos w r)
         \<and> videoHeight (videos (onCanPlay w t) r) = videoHeight (videos w r)
         \<and> source (textures (onCanPlay w t) t) = Some r"
  using assms by (simp add: onCanPlay_dimensions onCanPlay_video_fields onCanPlay_flags)

theorem onCanPlay_native_size_witness:
  "source (textures waiting_example 0) = Some 0
   \<and> width (textures waiting_example 0) = 100 \<and> height (textures waiting_example 0) = 100
   \<and> width (textures (onCanPlay waiting_example 0) 0) = 320
   \<and> height (textures (onCanPlay waiting_example 0) 0) = 240"
  using onCanPlay_native_size [of waiting_example 0 0]
  by (simp add: waiting_example_texture waiting_example_video)

subsection \<open>The refresh loop (C4, C5, C6)\<close>

lemma onPlayStart_unfold:
  "onPlayStart w t =
     (let w1 = (if hasLoaded (textures w t) then w else onCanPlay w t) in
      if autoUpdate (textures w t) then w1
      else upd_texture (requestAnimationFrame w1 (OnUpdate t)) t (\<lambda>x. x\<lparr>autoUpdate := True\<rparr>))"
  by (simp add: onPlayStart_def Let_def onCanPlay_flags)

lemma onPlayStart_flags:
  "hasLoaded (textures (onPlayStart w t) t)"
  "autoUpdate (textures (onPlayStart w t) t)"
  by (simp_all add: onPlayStart_unfold Let_def onCanPlay_flags)

lemma onPlayStart_raf:
  "raf (onPlayStart w t) = (if autoUpdate (textures w t) then raf w else raf w @ [OnUpdate t])"
  by (simp add: onPlayStart_unfold Let_def onCanPlay_rest)

lemma onPlayStart_updates:
  "updates (onPlayStart w t) = updates w"
  by (simp add: onPlayStart_unfold Let_def onCanPlay_rest)


text \<open>
  C4: on a texture that has not recorded readiness, \<^verbatim>\<open>_onPlayStart\<close> first runs the
  whole of \<^verbatim>\<open>_onCanPlay\<close>, on the store as it found it, and only then schedules the
  frame callback and sets \<^verbatim>\<open>autoUpdate\<close>; afterwards \<^verbatim>\<open>hasLoaded\<close> and
  \<^verbatim>\<open>autoUpdate\<close> are both true.
\<close>

theorem onPlayStart_forces_readiness:
  assumes "\<not> hasLoaded (textures w t)"
  shows "onPlayStart w t =
           (if autoUpdate (textures w t) then onCanPlay w t
            else upd_texture (requestAnimationFrame (onCanPlay w t) (OnUpdate t)) t
                   (\<lambda>x. x\<lparr>autoUpdate := True\<rparr>))
         \<and> hasLoaded (textures (onPlayStart w t) t)
         \<and> autoUpdate (textures (onPlayStart w t) t)"
  using assms by (simp add: onPlayStart_flags) (simp add: onPlayStart_unfold)

theorem onPlayStart_forces_readiness_witness:
  "\<not> hasLoaded (textures waiting_example 0)
   \<and> hasLoaded (textures (onPlayStart waiting_example 0) 0)
   \<and> autoUpdate (textures (onPlayStart waiting_example 0) 0)
   \<and> width (textures (onPlayStart waiting_example 0) 0) = 320
   \<and> emitted (onPlayStart waiting_example 0) = [(0, ''loaded'', 0)]
   \<and> raf (onPlayStart waiting_example 0) = [OnUpdate 0]"
  using onPlayStart_forces_readiness [of waiting_example 0]
  by (simp add: waiting_example_texture waiting_example_video waiting_example_logs
      onCanPlay_dimensions onCanPlay_emitted onCanPlay_rest onCanPlay_flags)



text \<open>
  C6: after \<^verbatim>\<open>_onPlayStop\<close> the flag \<^verbatim>\<open>autoUpdate\<close> is false, and a frame tick that
  fires then changes nothing: no update of the texture, no further tick. A frame tick
  with \<^verbatim>\<open>autoUpdate\<close> false never changes anything; one with \<^verbatim>\<open>autoUpdate\<close> true
  schedules itself again and updates the texture, and nothing else.
\<close>

theorem onPlayStop_ends_loop:
  "\<not> autoUpdate (textures (onPlayStop w t) t)
   \<and> onUpdate (onPlayStop w t) t = onPlayStop w t
   \<and> raf (onUpdate (onPlayStop w t) t) = raf w
   \<and> updates (onUpdate (onPlayStop w t) t) = updates w
   \<and> (\<not> autoUpdate (textures w t) \<longrightarrow> onUpdate w t = w)
   \<and> (autoUpdate (textures w t) \<longrightarrow>
        onUpdate w t = w\<lparr>raf := raf w @ [OnUpdate t], updates := updates w @ [t]\<rparr>)"
  by (simp add: onUpdate_def onPlayStop_def requestAnimationFrame_def update_def)

theorem onPlayStop_ends_loop_witness:
  "autoUpdate (textures (onPlayStart waiting_example 0) 0)
   \<and> raf (onUpdate (onPlayStart waiting_example 0) 0) = [OnUpdate 0, OnUpdate 0]
   \<and> updates (onUpdate (onPlayStart waiting_example 0) 0) = [0]
   \<and> \<not> autoUpdate (textures (onPlayStop (onPlayStart waiting_example 0) 0) 0)
   \<and> raf (onUpdate (onPlayStop (onPlayStart waiting_example 0) 0) 0) = [OnUpdate 0]
   \<and> updates (onUpdate (onPlayStop (onPlayStart waiting_example 0) 0) 0) = []"
  using onPlayStop_ends_loop [of "onPlayStart waiting_example 0" 0]
  by (simp add: onPlayStart_flags onPlayStart_raf onPlayStart_updates onPlayStop_def
      waiting_example_texture waiting_example_logs)

subsection \<open>What \<^verbatim>\<open>fromVideo\<close> and \<^verbatim>\<open>destroy\<close> change\<close>

lemma fromVideo_untagged:
  "\<not> truthy (pixiId (videos w r)) \<Longrightarrow>
     fromVideo dims w r =
       fromVideo dims
         (upd_video (w\<lparr>nextUid := Suc (nextUid w)\<rparr>) r
            (\<lambda>v. v\<lparr>pixiId := Some (tag (Suc (nextUid w)))\<rparr>)) r"
  by (simp add: fromVideo_def uid_def)

lemma fromVideo_hit:
  "pixiId (videos w r) = Some k \<Longrightarrow> k \<noteq> [] \<Longrightarrow> BaseTextureCache w k = Some bt \<Longrightarrow>
     fromVideo dims w r = Inr (w, bt)"
  by (simp add: fromVideo_def)

lemma fromVideo_miss:
  assumes "pixiId (videos w r) = Some k" and "k \<noteq> []" and "BaseTextureCache w k = None"
  shows "\<exists>w2. VideoBaseTexture_ctor dims w (Some r) = Inr (w2, next_tex w)
           \<and> fromVideo dims w r =
               Inr (w2\<lparr>BaseTextureCache := (BaseTextureCache w2)(k \<mapsto> next_tex w)\<rparr>,
                    next_tex w)"
proof -
  from ctor_returns obtain w2
    where c: "VideoBaseTexture_ctor dims w (Some r) = Inr (w2, next_tex w)" by blast
  from ctor_pixiId [OF c] assms(1) have "pixiId (videos w2 r) = Some k" by simp
  with assms c show ?thesis by (simp add: fromVideo_def)
qed

lemma fromVideo_twice_tagged:
  assumes "pixiId (videos w r) = Some k" and "k \<noteq> []"
  shows "\<exists>w1 t1. fromVideo dims w r = Inr (w1, t1) \<and> (\<forall>dims'. fromVideo dims' w1 r = Inr (w1, t1))"
proof (cases "BaseTextureCache w k")
  case (Some bt)
  with assms have "\<And>d. fromVideo d w r = Inr (w, bt)" by (simp add: fromVideo_hit)
  then show ?thesis by simp
next
  case None
  from fromVideo_miss [OF assms None] obtain w2
    where c: "VideoBaseTexture_ctor dims w (Some r) = Inr (w2, next_tex w)"
      and f: "fromVideo dims w r =
                Inr (w2\<lparr>BaseTextureCache := (BaseTextureCache w2)(k \<mapsto> next_tex w)\<rparr>,
                     next_tex w)"
    by blast
  let ?w1 = "w2\<lparr>BaseTextureCache := (BaseTextureCache w2)(k \<mapsto> next_tex w)\<rparr>"
  from ctor_pixiId [OF c] assms(1) have "pixiId (videos ?w1 r) = Some k" by simp
  moreover have "BaseTextureCache ?w1 k = Some (next_tex w)" by simp
  ultimately have "\<And>d. fromVideo d ?w1 r = Inr (?w1, next_tex w)"
    using assms(2) by (simp add: fromVideo_hit)
  with f show ?thesis by simp
qed

lemma fromVideo_twice:
  "\<exists>w1 t1. fromVideo dims w r = Inr (w1, t1) \<and> (\<forall>dims'. fromVideo dims' w1 r = Inr (w1, t1))"
proof (cases "truthy (pixiId (videos w r))")
  case True
  then obtain k where "pixiId (videos w r) = Some k" "k \<noteq> []"
    by (cases "pixiId (videos w r)") simp_all
  then show ?thesis by (rule fromVideo_twice_tagged)
next
  case False
  let ?w = "upd_video (w\<lparr>nextUid := Suc (nextUid w)\<rparr>) r
              (\<lambda>v. v\<lparr>pixiId := Some (tag (Suc (nextUid w)))\<rparr>)"
  have "pixiId (videos ?w r) = Some (tag (Suc (nextUid w)))" by simp
  moreover have "tag (Suc (nextUid w)) \<noteq> []" by simp
  ultimately have "\<exists>w1 t1. fromVideo dims ?w r = Inr (w1, t1)
      \<and> (\<forall>dims'. fromVideo dims' w1 r = Inr (w1, t1))"
    by (rule fromVideo_twice_tagged)
  with fromVideo_untagged [OF False, of dims] show ?thesis by simp
qed

text \<open>An untagged element in a store whose fresh tags are unused gets a new texture.\<close>

lemma fromVideo_new:
  assumes "\<not> truthy (pixiId (videos w r))" and "tags_fresh w"
  shows "\<exists>w'. fromVideo dims w r = Inr (w', next_tex w)
           \<and> next_tex w' = Suc (next_tex w) \<and> nextUid w' = Suc (nextUid w)
           \<and> BaseTextureCache w' = (BaseTextureCache w)(tag (Suc (nextUid w)) \<mapsto> next_tex w)
           \<and> pixiId (videos w' r) = Some (tag (Suc (nextUid w)))
           \<and> (\<forall>r'. r' \<noteq> r \<longrightarrow> pixiId (videos w' r') = pixiId (videos w r'))
           \<and> source (textures w' (next_tex w)) = Some r
           \<and> (\<forall>t'. t' \<noteq> next_tex w \<longrightarrow> textures w' t' = textures w t')
           \<and> tags_fresh w'"
proof -
  let ?k = "tag (Suc (nextUid w))"
  let ?w = "upd_video (w\<lparr>nextUid := Suc (nextUid w)\<rparr>) r (\<lambda>v. v\<lparr>pixiId := Some ?k\<rparr>)"
  have k: "pixiId (videos ?w r) = Some ?k" "?k \<noteq> []" by simp_all
  from assms(2) have "BaseTextureCache ?w ?k = None" by (simp add: tags_fresh_def)
  from fromVideo_miss [OF k this] obtain w2
    where c: "VideoBaseTexture_ctor dims ?w (Some r) = Inr (w2, next_tex ?w)"
      and f: "fromVideo dims ?w r =
                Inr (w2\<lparr>BaseTextureCache := (BaseTextureCache w2)(?k \<mapsto> next_tex ?w)\<rparr>,
                     next_tex ?w)"
    by blast
  let ?w' = "w2\<lparr>BaseTextureCache := (BaseTextureCache w2)(?k \<mapsto> next_tex w)\<rparr>"
  from f fromVideo_untagged [OF assms(1), of dims]
  have "fromVideo dims w r = Inr (?w', next_tex w)" by simp
  moreover from ctor_counters [OF c]
  have "next_tex ?w' = Suc (next_tex w)" "nextUid ?w' = Suc (nextUid w)"
    "BaseTextureCache ?w' = (BaseTextureCache w)(?k \<mapsto> next_tex w)"
    by simp_all
  moreover from ctor_pixiId [OF c]
  have "pixiId (videos ?w' r) = Some ?k"
    "\<forall>r'. r' \<noteq> r \<longrightarrow> pixiId (videos ?w' r') = pixiId (videos w r')"
    by simp_all
  moreover from ctor_textures [OF c]
  have "source (textures ?w' (next_tex w)) = Some r"
    "\<forall>t'. t' \<noteq> next_tex w \<longrightarrow> textures ?w' t' = textures w t'"
    by simp_all
  moreover from assms(2) ctor_counters [OF c] have "tags_fresh ?w'"
    by (simp add: tags_fresh_def tag_inj)
  ultimately show ?thesis by blast
qed

lemma destroy_tagged:
  "source (textures w t) = Some r \<Longrightarrow> pixiId (videos w r) = Some k \<Longrightarrow> k \<noteq> [] \<Longrightarrow>
     destroy w t =
       upd_texture
         (upd_video (w\<lparr>BaseTextureCache := (BaseTextureCache w)(k := None)\<rparr>) r
            (\<lambda>v. v\<lparr>pixiId := None\<rparr>))
         t (\<lambda>x. x\<lparr>source := None\<rparr>)"
  by (simp add: destroy_def BaseTexture_destroy_def)

lemma destroy_untagged:
  "source (textures w t) = None
     \<or> (\<exists>r. source (textures w t) = Some r \<and> \<not> truthy (pixiId (videos w r))) \<Longrightarrow>
   destroy w t = upd_texture w t (\<lambda>x. x\<lparr>source := None\<rparr>)"
  by (auto simp add: destroy_def BaseTexture_destroy_def split: option.splits)

lemma destroy_fields:
  "next_tex (destroy w t) = next_tex w" "nextUid (destroy w t) = nextUid w"
  "next_vid (destroy w t) = next_vid w"
  "listeners (videos (destroy w t) r') = listeners (videos w r')"
  "BaseTextureCache (destroy w t) k' = None \<or>
     BaseTextureCache (destroy w t) k' = BaseTextureCache w k'"
  "pixiId (videos (destroy w t) r') = None \<or>
     pixiId (videos (destroy w t) r') = pixiId (videos w r')"
  by (simp_all add: destroy_def BaseTexture_destroy_def Let_def split: option.splits)

subsection \<open>Well-formed stores are what the program reaches\<close>

lemma wf_world_empty: "wf_world empty_world"
  by (simp add: wf_world_def tags_fresh_def tags_issued_def cache_allocated_def
      listeners_allocated_def empty_world_def blank_video_def)

lemma wf_world_ctor:
  assumes "wf_world w" and "VideoBaseTexture_ctor dims w (Some r) = Inr (w', t)"
  shows "wf_world w'"
proof -
  note c = ctor_counters [OF assms(2)]
  from assms(1) c have "tags_fresh w'" "cache_allocated w'"
    by (auto simp add: wf_world_def tags_fresh_def cache_allocated_def less_Suc_eq)
  moreover from assms(1) c ctor_pixiId [OF assms(2)] have "tags_issued w'"
    by (simp add: wf_world_def tags_issued_def)
  moreover have "listeners_allocated w'"
    unfolding listeners_allocated_def
  proof (intro allI impI)
    fix r' l
    assume "l \<in> set (listeners (videos w' r'))"
    from ctor_listeners [OF assms(2) this]
    have "l \<in> set (listeners (videos w r')) \<or> callback_texture (snd l) = t" .
    moreover from assms(1)
    have "l \<in> set (listeners (videos w r')) \<Longrightarrow> callback_texture (snd l) < next_tex w"
      unfolding wf_world_def listeners_allocated_def by blast
    ultimately show "callback_texture (snd l) < next_tex w'"
      using c(1,2) by auto
  qed
  ultimately show ?thesis by (simp add: wf_world_def)
qed

lemma wf_world_cache:
  assumes "wf_world w" and "pixiId (videos w r) = Some k" and "t < next_tex w"
  shows "wf_world (w\<lparr>BaseTextureCache := (BaseTextureCache w)(k \<mapsto> t)\<rparr>)"
proof -
  from assms(1) have "tags_issued w" by (simp add: wf_world_def)
  then have "\<And>n. pixiId (videos w r) = Some (tag n) \<Longrightarrow> n \<le> nextUid w"
    unfolding tags_issued_def by blast
  with assms(2) have "\<And>n. nextUid w < n \<Longrightarrow> tag n \<noteq> k"
    by fastforce
  with assms(1,3) show ?thesis
    by (simp add: wf_world_def tags_fresh_def tags_issued_def cache_allocated_def
        listeners_allocated_def)
qed

lemma wf_world_tagging:
  assumes "wf_world w"
  shows "wf_world (upd_video (w\<lparr>nextUid := Suc (nextUid w)\<rparr>) r
                     (\<lambda>v. v\<lparr>pixiId := Some (tag (Suc (nextUid w)))\<rparr>))"
  using assms
  by (auto simp add: wf_world_def tags_fresh_def tags_issued_def cache_allocated_def
      listeners_allocated_def tag_inj le_Suc_eq)

lemma wf_world_fromVideo_tagged:
  assumes "wf_world w" and "pixiId (videos w r) = Some k" and "k \<noteq> []"
    and "fromVideo dims w r = Inr (w', t)"
  shows "wf_world w'"
proof (cases "BaseTextureCache w k")
  case (Some bt)
  with assms show ?thesis by (simp add: fromVideo_hit)
next
  case None
  from fromVideo_miss [OF assms(2,3) None] obtain w2
    where c: "VideoBaseTexture_ctor dims w (Some r) = Inr (w2, next_tex w)"
      and f: "fromVideo dims w r =
                Inr (w2\<lparr>BaseTextureCache := (BaseTextureCache w2)(k \<mapsto> next_tex w)\<rparr>,
                     next_tex w)"
    by blast
  from wf_world_ctor [OF assms(1) c] have "wf_world w2" .
  moreover from ctor_pixiId [OF c] assms(2) have "pixiId (videos w2 r) = Some k" by simp
  moreover from ctor_counters [OF c] have "next_tex w < next_tex w2" by simp
  ultimately have "wf_world (w2\<lparr>BaseTextureCache := (BaseTextureCache w2)(k \<mapsto> next_tex w)\<rparr>)"
    by (rule wf_world_cache)
  with f assms(4) show ?thesis by simp
qed

lemma wf_world_fromVideo:
  assumes "wf_world w" and "fromVideo dims w r = Inr (w', t)"
  shows "wf_world w'"
proof (cases "truthy (pixiId (videos w r))")
  case True
  then obtain k where "pixiId (videos w r) = Some k" "k \<noteq> []"
    by (cases "pixiId (videos w r)") simp_all
  with assms show ?thesis by (blast intro: wf_world_fromVideo_tagged)
next
  case False
  let ?w = "upd_video (w\<lparr>nextUid := Suc (nextUid w)\<rparr>) r
              (\<lambda>v. v\<lparr>pixiId := Some (tag (Suc (nextUid w)))\<rparr>)"
  have "wf_world ?w" using assms(1) by (rule wf_world_tagging)
  moreover have "pixiId (videos ?w r) = Some (tag (Suc (nextUid w)))" by simp
  moreover have "tag (Suc (nextUid w)) \<noteq> []" by simp
  moreover from assms(2) fromVideo_untagged [OF False, of dims]
  have "fromVideo dims ?w r = Inr (w', t)" by simp
  ultimately show ?thesis by (rule wf_world_fromVideo_tagged)
qed

lemma wf_world_destroy:
  assumes "wf_world w"
  shows "wf_world (destroy w t)"
proof -
  have "tags_fresh (destroy w t)"
    unfolding tags_fresh_def
  proof (intro allI impI)
    fix n
    assume "nextUid (destroy w t) < n"
    with assms have "BaseTextureCache w (tag n) = None"
      by (simp add: wf_world_def tags_fresh_def destroy_fields)
    with destroy_fields(5) [of w t "tag n"]
    show "BaseTextureCache (destroy w t) (tag n) = None" by auto
  qed
  moreover have "tags_issued (destroy w t)"
    unfolding tags_issued_def
  proof (intro allI impI)
    fix r n
    assume "pixiId (videos (destroy w t) r) = Some (tag n)"
    with destroy_fields(6) [of w t r] have "pixiId (videos w r) = Some (tag n)" by auto
    with assms show "n \<le> nextUid (destroy w t)"
      by (auto simp add: wf_world_def tags_issued_def destroy_fields)
  qed
  moreover have "cache_allocated (destroy w t)"
    unfolding cache_allocated_def
  proof (intro allI impI)
    fix k t'
    assume "BaseTextureCache (destroy w t) k = Some t'"
    with destroy_fields(5) [of w t k] have "BaseTextureCache w k = Some t'" by auto
    with assms show "t' < next_tex (destroy w t)"
      by (auto simp add: wf_world_def cache_allocated_def destroy_fields)
  qed
  moreover from assms have "listeners_allocated (destroy w t)"
    by (simp add: wf_world_def listeners_allocated_def destroy_fields)
  ultimately show ?thesis by (simp add: wf_world_def)
qed

lemma tags_fresh_two_videos: "tags_fresh two_videos"
  by (simp add: tags_fresh_def two_videos_def empty_world_def)

lemma tags_fresh_waiting_example: "tags_fresh waiting_example"
proof -
  have "\<And>n. 1 < n \<Longrightarrow> tag n \<noteq> ''video_1''"
    using tag_inj [of _ "Suc 0"] by (simp add: tag_Suc_0)
  then show ?thesis by (simp add: tags_fresh_def waiting_example_def)
qed

lemma wf_world_two_videos: "wf_world two_videos"
  by (simp add: wf_world_def tags_fresh_def tags_issued_def cache_allocated_def
      listeners_allocated_def two_videos_def empty_world_def blank_video_def)

lemma wf_world_waiting_example: "wf_world waiting_example"
  using wf_world_fromVideo [OF wf_world_two_videos fromVideo_two_videos] .

subsection \<open>Caching (C7, C9)\<close>

text \<open>
  C7: \<^verbatim>\<open>fromVideo\<close> always returns, and a second call with the same element returns the
  same texture and leaves the store as it is. In a store whose fresh tags are unused (as
  in every store the program reaches), two distinct untagged elements get two distinct
  textures, under two distinct tags, each the one cache entry of its tag.
\<close>

theorem fromVideo_identity:
  "(\<exists>w1 t1. fromVideo dims w r = Inr (w1, t1)
        \<and> (\<forall>dims'. fromVideo dims' w1 r = Inr (w1, t1)))
   \<and> (tags_fresh w \<and> r1 \<noteq> r2
        \<and> \<not> truthy (pixiId (videos w r1)) \<and> \<not> truthy (pixiId (videos w r2)) \<longrightarrow>
      (\<exists>w1 t1 w2 t2.
          fromVideo dims w r1 = Inr (w1, t1) \<and> fromVideo dims' w1 r2 = Inr (w2, t2)
          \<and> t1 \<noteq> t2
          \<and> pixiId (videos w2 r1) \<noteq> pixiId (videos w2 r2)
          \<and> BaseTextureCache w2 (property_key (pixiId (videos w2 r1))) = Some t1
          \<and> BaseTextureCache w2 (property_key (pixiId (videos w2 r2))) = Some t2))"
proof (intro conjI impI)
  show "\<exists>w1 t1. fromVideo dims w r = Inr (w1, t1)
          \<and> (\<forall>dims'. fromVideo dims' w1 r = Inr (w1, t1))"
    by (rule fromVideo_twice)
next
  assume a: "tags_fresh w \<and> r1 \<noteq> r2
      \<and> \<not> truthy (pixiId (videos w r1)) \<and> \<not> truthy (pixiId (videos w r2))"
  let ?k1 = "tag (Suc (nextUid w))" and ?k2 = "tag (Suc (Suc (nextUid w)))"
  from a fromVideo_new [of w r1 dims] obtain w1
    where f1: "fromVideo dims w r1 = Inr (w1, next_tex w)"
      and n1: "next_tex w1 = Suc (next_tex w)" "nextUid w1 = Suc (nextUid w)"
      and c1: "BaseTextureCache w1 = (BaseTextureCache w)(?k1 \<mapsto> next_tex w)"
      and p1: "pixiId (videos w1 r1) = Some ?k1"
        "\<forall>r'. r' \<noteq> r1 \<longrightarrow> pixiId (videos w1 r') = pixiId (videos w r')"
      and fr1: "tags_fresh w1"
    by blast
  from a p1 have "\<not> truthy (pixiId (videos w1 r2))" by simp
  from fromVideo_new [OF this fr1, of dims'] n1 obtain w2
    where f2: "fromVideo dims' w1 r2 = Inr (w2, Suc (next_tex w))"
      and c2: "BaseTextureCache w2 = (BaseTextureCache w1)(?k2 \<mapsto> Suc (next_tex w))"
      and p2: "pixiId (videos w2 r2) = Some ?k2"
        "\<forall>r'. r' \<noteq> r2 \<longrightarrow> pixiId (videos w2 r') = pixiId (videos w1 r')"
    by auto
  from a p1 p2 have q1: "pixiId (videos w2 r1) = Some ?k1" by simp
  have "?k1 \<noteq> ?k2" by (simp add: tag_inj)
  with f1 f2 c1 c2 p2(1) q1 show "\<exists>w1 t1 w2 t2.
      fromVideo dims w r1 = Inr (w1, t1) \<and> fromVideo dims' w1 r2 = Inr (w2, t2)
      \<and> t1 \<noteq> t2
      \<and> pixiId (videos w2 r1) \<noteq> pixiId (videos w2 r2)
      \<and> BaseTextureCache w2 (property_key (pixiId (videos w2 r1))) = Some t1
      \<and> BaseTextureCache w2 (property_key (pixiId (videos w2 r2))) = Some t2"
    by simp
qed

theorem fromVideo_identity_witness:
  "tags_fresh two_videos \<and> \<not> truthy (pixiId (videos two_videos 0))
   \<and> \<not> truthy (pixiId (videos two_videos 1))
   \<and> fromVideo (100, 100) two_videos 0 = Inr (waiting_example, 0)
   \<and> fromVideo (100, 100) waiting_example 0 = Inr (waiting_example, 0)
   \<and> (case fromVideo (100, 100) waiting_example 1 of
         Inl e \<Rightarrow> False
       | Inr (w2, t2) \<Rightarrow> t2 \<noteq> 0 \<and> pixiId (videos w2 0) \<noteq> pixiId (videos w2 1))"
proof -
  have u: "\<not> truthy (pixiId (videos two_videos 0))" "\<not> truthy (pixiId (videos two_videos 1))"
    by (simp_all add: two_videos_def empty_world_def blank_video_def)
  from fromVideo_identity [of "(100, 100)" two_videos 0 0 1 "(100, 100)"]
    tags_fresh_two_videos u
  show ?thesis
    by (auto simp add: fromVideo_two_videos)
qed

text \<open>
  C9: when the resource of a texture carries a tag, \<^verbatim>\<open>destroy\<close> removes the cache
  entry of that tag, clears the tag and (in the base texture) the resource reference;
  a following \<^verbatim>\<open>fromVideo\<close> on the same element then constructs a texture that did not
  exist before, under a new tag (in a store whose fresh tags are unused, for a texture
  that has been allocated). When the resource carries no tag, or the reference is absent,
  the cache is unchanged.
\<close>

theorem destroy_uncaches:
  "(source (textures w t) = Some r \<and> pixiId (videos w r) = Some k \<and> k \<noteq> [] \<longrightarrow>
      BaseTextureCache (destroy w t) = (BaseTextureCache w)(k := None)
      \<and> pixiId (videos (destroy w t) r) = None
      \<and> source (textures (destroy w t) t) = None
      \<and> (tags_fresh w \<and> t < next_tex w \<longrightarrow>
           (\<exists>w'. fromVideo dims (destroy w t) r = Inr (w', next_tex w)
              \<and> next_tex w \<noteq> t
              \<and> next_tex w' = Suc (next_tex w)
              \<and> source (textures w' (next_tex w)) = Some r
              \<and> pixiId (videos w' r) = Some (tag (Suc (nextUid w)))
              \<and> BaseTextureCache w' (tag (Suc (nextUid w))) = Some (next_tex w))))
   \<and> (source (textures w t) = Some r \<and> \<not> truthy (pixiId (videos w r)) \<longrightarrow>
        BaseTextureCache (destroy w t) = BaseTextureCache w
        \<and> pixiId (videos (destroy w t) r) = pixiId (videos w r))
   \<and> (source (textures w t) = None \<longrightarrow>
        BaseTextureCache (destroy w t) = BaseTextureCache w)"
proof (intro conjI impI)
  assume a: "source (textures w t) = Some r \<and> pixiId (videos w r) = Some k \<and> k \<noteq> []"
  then have d: "destroy w t =
      upd_texture
        (upd_video (w\<lparr>BaseTextureCache := (BaseTextureCache w)(k := None)\<rparr>) r
           (\<lambda>v. v\<lparr>pixiId := None\<rparr>))
        t (\<lambda>x. x\<lparr>source := None\<rparr>)"
    by (simp add: destroy_tagged)
  show c: "BaseTextureCache (destroy w t) = (BaseTextureCache w)(k := None)"
    and p: "pixiId (videos (destroy w t) r) = None"
    and "source (textures (destroy w t) t) = None"
    by (simp_all add: d)
  assume b: "tags_fresh w \<and> t < next_tex w"
  with c have "tags_fresh (destroy w t)"
    by (simp add: tags_fresh_def destroy_fields)
  moreover from p have "\<not> truthy (pixiId (videos (destroy w t) r))" by simp
  ultimately obtain w'
    where "fromVideo dims (destroy w t) r = Inr (w', next_tex (destroy w t))"
      "next_tex w' = Suc (next_tex (destroy w t))"
      "BaseTextureCache w' =
         (BaseTextureCache (destroy w t))
           (tag (Suc (nextUid (destroy w t))) \<mapsto> next_tex (destroy w t))"
      "pixiId (videos w' r) = Some (tag (Suc (nextUid (destroy w t))))"
      "source (textures w' (next_tex (destroy w t))) = Some r"
    using fromVideo_new [of "destroy w t" r dims] by blast
  with b show "\<exists>w'. fromVideo dims (destroy w t) r = Inr (w', next_tex w)
      \<and> next_tex w \<noteq> t
      \<and> next_tex w' = Suc (next_tex w)
      \<and> source (textures w' (next_tex w)) = Some r
      \<and> pixiId (videos w' r) = Some (tag (Suc (nextUid w)))
      \<and> BaseTextureCache w' (tag (Suc (nextUid w))) = Some (next_tex w)"
    by (simp add: destroy_fields)
next
  assume "source (textures w t) = Some r \<and> \<not> truthy (pixiId (videos w r))"
  then have "destroy w t = upd_texture w t (\<lambda>x. x\<lparr>source := None\<rparr>)"
    by (simp add: destroy_untagged)
  then show "BaseTextureCache (destroy w t) = BaseTextureCache w"
    and "pixiId (videos (destroy w t) r) = pixiId (videos w r)"
    by simp_all
next
  assume "source (textures w t) = None"
  then have "destroy w t = upd_texture w t (\<lambda>x. x\<lparr>source := None\<rparr>)"
    by (simp add: destroy_untagged)
  then show "BaseTextureCache (destroy w t) = BaseTextureCache w" by simp
qed

theorem destroy_uncaches_witness:
  "source (textures waiting_example 0) = Some 0
   \<and> pixiId (videos waiting_example 0) = Some ''video_1''
   \<and> BaseTextureCache waiting_example ''video_1'' = Some 0
   \<and> tags_fresh waiting_example \<and> 0 < next_tex waiting_example
   \<and> BaseTextureCache (destroy waiting_example 0) ''video_1'' = None
   \<and> pixiId (videos (destroy waiting_example 0) 0) = None
   \<and> (case fromVideo (100, 100) (destroy waiting_example 0) 0 of
         Inl e \<Rightarrow> False
       | Inr (w', t') \<Rightarrow> t' = 1 \<and> source (textures w' 1) = Some 0)
   \<and> \<not> truthy (pixiId (videos waiting_example 1))
   \<and> BaseTextureCache
        (destroy (waiting_example\<lparr>textures := (textures waiting_example)
                    (0 := (textures waiting_example 0)\<lparr>source := Some 1\<rparr>)\<rparr>) 0)
      = BaseTextureCache waiting_example"
proof -
  let ?w = "waiting_example\<lparr>textures := (textures waiting_example)
              (0 := (textures waiting_example 0)\<lparr>source := Some 1\<rparr>)\<rparr>"
  have f: "source (textures waiting_example 0) = Some 0"
    "pixiId (videos waiting_example 0) = Some ''video_1''"
    "BaseTextureCache waiting_example ''video_1'' = Some 0"
    "next_tex waiting_example = 1"
    "\<not> truthy (pixiId (videos waiting_example 1))"
    by (simp_all add: waiting_example_def blank_video_def)
  have g: "source (textures ?w 0) = Some 1" "\<not> truthy (pixiId (videos ?w 1))"
    "BaseTextureCache ?w = BaseTextureCache waiting_example"
    by (simp_all add: waiting_example_def blank_video_def)
  from destroy_uncaches [of waiting_example 0 0 "''video_1''" "(100, 100)"]
    destroy_uncaches [of ?w 0 1] f g tags_fresh_waiting_example
  show ?thesis by auto
qed

subsection \<open>Signals (C10)\<close>

lemma onPlayStart_videos:
  "videos (onPlayStart w t) = (if hasLoaded (textures w t) then videos w else videos (onCanPlay w t))"
  by (simp add: onPlayStart_unfold Let_def)

lemma onPlayStart_other_texture:
  "t' \<noteq> t \<Longrightarrow> textures (onPlayStart w t) t' = textures w t'"
  by (simp add: onPlayStart_unfold Let_def onCanPlay_other_texture)

lemma invoke_listeners:
  "set (listeners (videos (invoke w cb) r)) \<subseteq> set (listeners (videos w r))"
proof (cases cb)
  case (OnCanPlay t)
  then show ?thesis by (simp add: onCanPlay_listeners)
next
  case (OnPlayStart t)
  then show ?thesis using onCanPlay_listeners [of w t r] by (simp add: onPlayStart_videos)
next
  case (OnPlayStop t)
  then show ?thesis by (simp add: onPlayStop_def)
next
  case (OnUpdate t)
  then show ?thesis by (simp add: onUpdate_def)
qed

lemma invoke_autoUpdate:
  assumes "cb \<noteq> OnPlayStart t" and "\<not> autoUpdate (textures w t)"
  shows "\<not> autoUpdate (textures (invoke w cb) t)"
proof (cases cb)
  case (OnCanPlay t')
  with assms(2) show ?thesis
    by (cases "t' = t") (simp_all add: onCanPlay_flags onCanPlay_other_texture)
next
  case (OnPlayStart t')
  with assms show ?thesis by (simp add: onPlayStart_other_texture)
next
  case (OnPlayStop t')
  with assms(2) show ?thesis by (simp add: onPlayStop_def)
next
  case (OnUpdate t')
  with assms(2) show ?thesis by (simp add: onUpdate_def)
qed

lemma not_started_invoke:
  assumes "not_started w t" and "(ev, cb) \<in> set (listeners (videos w r))"
  shows "not_started (invoke w cb) t"
proof -
  from assms have "cb \<noteq> OnPlayStart t" by (auto simp add: not_started_def)
  with assms(1) have "\<not> autoUpdate (textures (invoke w cb) t)"
    by (simp add: not_started_def invoke_autoUpdate)
  moreover from assms(1) invoke_listeners [of w cb]
  have "\<forall>r ev. (ev, OnPlayStart t) \<notin> set (listeners (videos (invoke w cb) r))"
    by (auto simp add: not_started_def)
  ultimately show ?thesis by (simp add: not_started_def)
qed

lemma not_started_deliver:
  "not_started w t \<Longrightarrow> not_started (deliver w r ev cbs) t"
proof (induction cbs arbitrary: w)
  case Nil
  then show ?case by simp
next
  case (Cons cb cbs)
  let ?w = "if (ev, cb) \<in> set (listeners (videos w r)) then invoke w cb else w"
  from Cons.prems have "not_started ?w t" by (simp add: not_started_invoke)
  then have "not_started (deliver ?w r ev cbs) t" by (rule Cons.IH)
  then show ?case by simp
qed

lemma not_started_signals:
  "not_started w t \<Longrightarrow> not_started (signals w sigs) t"
proof (induction sigs arbitrary: w)
  case Nil
  then show ?case by simp
next
  case (Cons s sigs)
  obtain r ev where s: "s = (r, ev)" by (cases s)
  from Cons.prems have "not_started (dispatch w r ev) t"
    by (simp add: dispatch_def not_started_deliver)
  then have "not_started (signals (dispatch w r ev) sigs) t" by (rule Cons.IH)
  with s show ?case by simp
qed

text \<open>The model of signals is not empty: on the waiting texture, \<^verbatim>\<open>play\<close> starts the loop.\<close>

lemma signals_start_example:
  "autoUpdate (textures (signals waiting_example [(0, ''play'')]) 0)"
  by (simp add: dispatch_def waiting_example_video onPlayStart_flags)

text \<open>
  C10: when the element has buffered enough data and has a non-zero width and height, the
  constructor returns and leaves the listeners of every element as they were: neither
  the readiness listeners nor the \<^verbatim>\<open>play\<close> and \<^verbatim>\<open>pause\<close> listeners are registered.
  So (in a store whose registered listeners belong to allocated textures) no sequence of
  signals, delivered by any elements, sets \<^verbatim>\<open>autoUpdate\<close> of the new texture; a direct
  call of \<^verbatim>\<open>_onPlayStart\<close> does.
\<close>

theorem ready_resource_registers_nothing:
  assumes "readyState (videos w r) = HAVE_ENOUGH_DATA \<or> readyState (videos w r) = HAVE_FUTURE_DATA"
    and "v_width (videos w r) \<noteq> 0" and "v_height (videos w r) \<noteq> 0"
  shows "\<exists>w' t. VideoBaseTexture_ctor dims w (Some r) = Inr (w', t)
           \<and> (\<forall>r'. listeners (videos w' r') = listeners (videos w r'))
           \<and> (listeners_allocated w \<longrightarrow>
                (\<forall>sigs. \<not> autoUpdate (textures (signals w' sigs) t)))
           \<and> (\<forall>sigs. autoUpdate (textures (onPlayStart (signals w' sigs) t) t))"
proof -
  from ctor_returns obtain w'
    where c: "VideoBaseTexture_ctor dims w (Some r) = Inr (w', next_tex w)" by blast
  have same: "\<forall>r'. listeners (videos w' r') = listeners (videos w r')"
    using ctor_listeners_ready [OF c assms] by simp
  have "\<forall>sigs. \<not> autoUpdate (textures (signals w' sigs) (next_tex w))"
    if a: "listeners_allocated w"
  proof
    fix sigs
    have "(ev, OnPlayStart (next_tex w)) \<notin> set (listeners (videos w r'))" for r' ev
    proof
      assume "(ev, OnPlayStart (next_tex w)) \<in> set (listeners (videos w r'))"
      with a have "callback_texture (snd (ev, OnPlayStart (next_tex w))) < next_tex w"
        unfolding listeners_allocated_def by blast
      then show False by simp
    qed
    with same ctor_textures(2) [OF c] have "not_started w' (next_tex w)"
      by (simp add: not_started_def)
    then have "not_started (signals w' sigs) (next_tex w)" by (rule not_started_signals)
    then show "\<not> autoUpdate (textures (signals w' sigs) (next_tex w))"
      by (simp add: not_started_def)
  qed
  with c same show ?thesis by (simp add: onPlayStart_flags)
qed

theorem ready_resource_registers_nothing_witness:
  "readyState (videos two_videos 1) = HAVE_ENOUGH_DATA
   \<and> v_width (videos two_videos 1) \<noteq> 0 \<and> v_height (videos two_videos 1) \<noteq> 0
   \<and> listeners_allocated two_videos
   \<and> (case VideoBaseTexture_ctor (100, 100) two_videos (Some 1) of
         Inl e \<Rightarrow> False
       | Inr (w', t) \<Rightarrow>
           listeners (videos w' 1) = []
           \<and> \<not> autoUpdate (textures
                  (signals w' [(1, ''canplay''), (1, ''play''), (1, ''pause''), (1, ''play'')]) t)
           \<and> autoUpdate (textures (onPlayStart w' t) t))"
proof -
  have f: "readyState (videos two_videos 1) = HAVE_ENOUGH_DATA"
    "v_width (videos two_videos 1) \<noteq> 0" "v_height (videos two_videos 1) \<noteq> 0"
    "listeners (videos two_videos 1) = []"
    by (simp_all add: two_videos_def empty_world_def blank_video_def)
  have a: "listeners_allocated two_videos"
    using wf_world_two_videos by (simp add: wf_world_def)
  from ready_resource_registers_nothing [of two_videos 1 "(100, 100)"] f(1-3)
  obtain w' t where c: "VideoBaseTexture_ctor (100, 100) two_videos (Some 1) = Inr (w', t)"
    and l: "\<forall>r'. listeners (videos w' r') = listeners (videos two_videos r')"
    and s: "listeners_allocated two_videos \<longrightarrow>
              (\<forall>sigs. \<not> autoUpdate (textures (signals w' sigs) t))"
    and p: "\<forall>sigs. autoUpdate (textures (onPlayStart (signals w' sigs) t) t)"
    by blast
  from p have "autoUpdate (textures (onPlayStart (signals w' []) t) t)" by blast
  then have "autoUpdate (textures (onPlayStart w' t) t)" by simp
  with c l s a f show ?thesis by (simp del: signals.simps)
qed

lemma invoke_fields:
  "BaseTextureCache (invoke w cb) = BaseTextureCache w"
  "nextUid (invoke w cb) = nextUid w"
  "next_tex (invoke w cb) = next_tex w"
  "pixiId (videos (invoke w cb) r) = pixiId (videos w r)"
  by (cases cb; simp add: onPlayStart_unfold Let_def onCanPlay_rest onCanPlay_video_fields
      onPlayStop_def onUpdate_def)+

lemma wf_world_invoke:
  assumes "wf_world w"
  shows "wf_world (invoke w cb)"
proof -
  from assms have "tags_fresh (invoke w cb)" "tags_issued (invoke w cb)"
    "cache_allocated (invoke w cb)"
    by (simp_all add: wf_world_def tags_fresh_def tags_issued_def cache_allocated_def
        invoke_fields)
  moreover from assms invoke_listeners [of w cb] have "listeners_allocated (invoke w cb)"
    unfolding wf_world_def listeners_allocated_def invoke_fields by blast
  ultimately show ?thesis by (simp add: wf_world_def)
qed

lemma wf_world_deliver:
  "wf_world w \<Longrightarrow> wf_world (deliver w r ev cbs)"
  by (induction cbs arbitrary: w) (simp_all add: wf_world_invoke)

lemma wf_world_signals:
  "wf_world w \<Longrightarrow> wf_world (signals w sigs)"
proof (induction sigs arbitrary: w)
  case Nil
  then show ?case by simp
next
  case (Cons s sigs)
  obtain r ev where s: "s = (r, ev)" by (cases s)
  from Cons.prems have "wf_world (dispatch w r ev)"
    by (simp add: dispatch_def wf_world_deliver)
  then have "wf_world (signals (dispatch w r ev) sigs)" by (rule Cons.IH)
  with s show ?case by simp
qed

subsection \<open>Source declarations\<close>

lemma lastIndexOf_absent: "c \<notin> set s \<Longrightarrow> lastIndexOf s c = - 1"
  by (induction s) (auto simp add: Let_def)

lemma lastIndexOf_present:
  "c \<in> set s \<Longrightarrow>
     0 \<le> lastIndexOf s c
     \<and> drop (nat (lastIndexOf s c + 1)) s = rev (takeWhile (\<lambda>x. x \<noteq> c) (rev s))"
proof (induction s)
  case Nil
  then show ?case by simp
next
  case (Cons x xs)
  show ?case
  proof (cases "c \<in> set xs")
    case True
    with Cons.IH have i: "0 \<le> lastIndexOf xs c"
      and d: "drop (nat (lastIndexOf xs c + 1)) xs = rev (takeWhile (\<lambda>x. x \<noteq> c) (rev xs))"
      by simp_all
    from True have "takeWhile (\<lambda>x. x \<noteq> c) (rev xs @ [x]) = takeWhile (\<lambda>x. x \<noteq> c) (rev xs)"
      by (intro takeWhile_append1 [where x = c]) simp_all
    moreover from i have "nat (lastIndexOf xs c + 1 + 1) = Suc (nat (lastIndexOf xs c + 1))"
      by simp
    ultimately show ?thesis using i d by (simp add: Let_def)
  next
    case False
    with Cons.prems have x: "x = c" by simp
    from False have "lastIndexOf xs c = - 1" by (rule lastIndexOf_absent)
    moreover from False have "takeWhile (\<lambda>x. x \<noteq> c) (rev xs @ [c]) = rev xs"
      by (auto simp add: takeWhile_tail)
    ultimately show ?thesis using x by (simp add: Let_def)
  qed
qed

lemma inferred_type:
  "substr s (lastIndexOf s CHR ''.'' + 1) = after_last_dot s"
proof (cases "CHR ''.'' \<in> set s")
  case True
  with lastIndexOf_present [of "CHR ''.''" s] show ?thesis
    by (simp add: substr_def after_last_dot_def)
next
  case False
  then have e: "takeWhile (\<lambda>c. c \<noteq> CHR ''.'') (rev s) = rev s" by auto
  from False lastIndexOf_absent [of "CHR ''.''" s]
  have "substr s (lastIndexOf s CHR ''.'' + 1) = s" by (simp add: substr_def)
  moreover have "after_last_dot s = s" by (simp only: after_last_dot_def e rev_rev_ident)
  ultimately show ?thesis by simp
qed

lemma after_last_dot_split:
  assumes "CHR ''.'' \<notin> set ext"
  shows "after_last_dot (pre @ CHR ''.'' # ext) = ext"
proof -
  from assms have e: "takeWhile (\<lambda>c. c \<noteq> CHR ''.'') (rev ext) = rev ext" by auto
  have "takeWhile (\<lambda>c. c \<noteq> CHR ''.'') (rev (pre @ CHR ''.'' # ext))
          = takeWhile (\<lambda>c. c \<noteq> CHR ''.'') (rev ext)"
    by (simp add: takeWhile_tail)
  then show ?thesis by (simp only: after_last_dot_def e rev_rev_ident)
qed

lemma createSource_Url:
  "createSource (PathStr s) None =
     Inr \<lparr>s_src = PathStr s, s_type = ''video/'' @ after_last_dot s\<rparr>"
  by (simp add: createSource_def inferred_type)

lemma createSource_has_url:
  "has_url d \<Longrightarrow> \<exists>c. createSource (descriptor_path d) (descriptor_mime d) = Inr c"
proof (cases d)
  case (Url s)
  then show ?thesis by (simp add: createSource_def)
next
  case (Desc src mime)
  assume "has_url d"
  with Desc obtain s where "src = Some s" "s \<noteq> []" by (cases src) simp_all
  with Desc show ?thesis by (cases mime) (simp_all add: createSource_def Let_def)
qed

lemma upd_video_twice:
  "upd_video (upd_video w r f) r g = upd_video w r (\<lambda>v. g (f v))"
  by (simp add: upd_video_def)

lemma appendSources_result:
  "appendSources w r ds = Inr w' \<Longrightarrow>
     \<exists>cs. w' = upd_video w r (\<lambda>v. v\<lparr>children := children v @ cs\<rparr>)
         \<and> list_all2 (\<lambda>d c. createSource (descriptor_path d) (descriptor_mime d) = Inr c) ds cs"
proof (induction ds arbitrary: w)
  case Nil
  then have "w' = upd_video w r (\<lambda>v. v\<lparr>children := children v @ []\<rparr>)"
    by (simp add: upd_video_def)
  then show ?case by blast
next
  case (Cons d ds)
  from Cons.prems obtain s
    where s: "createSource (descriptor_path d) (descriptor_mime d) = Inr s"
      and rest: "appendSources (appendChild w r s) r ds = Inr w'"
    by (cases "createSource (descriptor_path d) (descriptor_mime d)") simp_all
  from Cons.IH [OF rest] obtain cs
    where w': "w' = upd_video (appendChild w r s) r (\<lambda>v. v\<lparr>children := children v @ cs\<rparr>)"
      and cs: "list_all2 (\<lambda>d c. createSource (descriptor_path d) (descriptor_mime d) = Inr c) ds cs"
    by blast
  from w' have "w' = upd_video w r (\<lambda>v. v\<lparr>children := children v @ (s # cs)\<rparr>)"
    by (simp add: appendChild_def upd_video_twice)
  moreover from s cs
  have "list_all2 (\<lambda>d c. createSource (descriptor_path d) (descriptor_mime d) = Inr c)
          (d # ds) (s # cs)"
    by simp
  ultimately show ?case by blast
qed

lemma appendSources_returns:
  "\<forall>d\<in>set ds. has_url d \<Longrightarrow> \<exists>w'. appendSources w r ds = Inr w'"
proof (induction ds arbitrary: w)
  case Nil
  show ?case by simp
next
  case (Cons d ds)
  then obtain c where "createSource (descriptor_path d) (descriptor_mime d) = Inr c"
    using createSource_has_url [of d] by auto
  moreover from Cons obtain w' where "appendSources (appendChild w r c) r ds = Inr w'"
    by fastforce
  ultimately show ?case by simp
qed

lemma fromVideo_children:
  assumes "fromVideo dims w r = Inr (w', t)"
  shows "children (videos w' r') = children (videos w r')"
proof -
  have tagged: "children (videos w' r') = children (videos w0 r')"
    if k: "pixiId (videos w0 r) = Some k" "k \<noteq> []" and f: "fromVideo dims w0 r = Inr (w', t)"
    for w0 k
  proof (cases "BaseTextureCache w0 k")
    case (Some bt)
    with k f show ?thesis by (simp add: fromVideo_hit)
  next
    case None
    from fromVideo_miss [OF k None, of dims] f obtain w2
      where c: "VideoBaseTexture_ctor dims w0 (Some r) = Inr (w2, next_tex w0)"
        and "w' = w2\<lparr>BaseTextureCache := (BaseTextureCache w2)(k \<mapsto> next_tex w0)\<rparr>"
      by auto
    with ctor_children [OF c, of r'] show ?thesis by simp
  qed
  show ?thesis
  proof (cases "truthy (pixiId (videos w r))")
    case True
    then obtain k where "pixiId (videos w r) = Some k" "k \<noteq> []"
      by (cases "pixiId (videos w r)") simp_all
    from tagged [OF this assms] show ?thesis .
  next
    case False
    let ?w = "upd_video (w\<lparr>nextUid := Suc (nextUid w)\<rparr>) r
                (\<lambda>v. v\<lparr>pixiId := Some (tag (Suc (nextUid w)))\<rparr>)"
    have "pixiId (videos ?w r) = Some (tag (Suc (nextUid w)))" "tag (Suc (nextUid w)) \<noteq> []"
      by simp_all
    moreover from assms fromVideo_untagged [OF False, of dims]
    have "fromVideo dims ?w r = Inr (w', t)" by simp
    ultimately have "children (videos w' r') = children (videos ?w r')" by (rule tagged)
    then show ?thesis by simp
  qed
qed

lemma fromUrl_Many:
  "fromUrl dims w (Many ds) =
     (case appendSources
             (w\<lparr>next_vid := Suc (next_vid w), videos := (videos w)(next_vid w := blank_video)\<rparr>)
             (next_vid w) ds of
        Inl e \<Rightarrow> Inl e
      | Inr w2 \<Rightarrow> fromVideo dims (play (load w2 (next_vid w)) (next_vid w)) (next_vid w))"
  by (simp add: fromUrl_def createElement_video_def)

lemma fromUrl_example:
  "fromUrl (100, 100) empty_world (Many [Url ''a.webm'', Url ''a.mp4'']) = Inr (url_example, 0)"
  by (simp add: fromUrl_Many createSource_def substr_def appendChild_def fromVideo_def uid_def
      VideoBaseTexture_ctor_def BaseTexture_ctor_def element_defs upd_video_def upd_texture_def
      empty_world_def url_example_def blank_video_def tag_Suc_0 Let_def fun_eq_iff)

text \<open>
  What holds of the children: when \<^verbatim>\<open>fromUrl\<close> returns for an array of descriptors,
  the element it has created (the one the returned texture wraps, in a store whose fresh
  tags are unused) has one child per descriptor, in the order of the array, each the
  result of \<^verbatim>\<open>createSource\<close> on its descriptor; for a bare URL string the child has
  that URL and the type \<^verbatim>\<open>video/\<close> followed by the text after the last dot of the
  string. \<^verbatim>\<open>fromUrl\<close> returns whenever every descriptor names a URL.
\<close>

lemma fromUrl_children:
  "(fromUrl dims w (Many ds) = Inr (w', t) \<longrightarrow>
      list_all2 (\<lambda>d c. createSource (descriptor_path d) (descriptor_mime d) = Inr c)
        ds (children (videos w' (next_vid w)))
      \<and> (\<forall>i s. i < length ds \<and> ds ! i = Url s \<longrightarrow>
            children (videos w' (next_vid w)) ! i =
              \<lparr>s_src = PathStr s, s_type = ''video/'' @ after_last_dot s\<rparr>)
      \<and> (tags_fresh w \<longrightarrow> source (textures w' t) = Some (next_vid w)))
   \<and> ((\<forall>d\<in>set ds. has_url d) \<longrightarrow> (\<exists>w' t. fromUrl dims w (Many ds) = Inr (w', t)))"
proof (intro conjI impI)
  let ?v = "next_vid w"
  let ?w1 = "w\<lparr>next_vid := Suc (next_vid w), videos := (videos w)(next_vid w := blank_video)\<rparr>"
  {
    assume f: "fromUrl dims w (Many ds) = Inr (w', t)"
    then obtain w2 where a: "appendSources ?w1 ?v ds = Inr w2"
      and v: "fromVideo dims (play (load w2 ?v) ?v) ?v = Inr (w', t)"
      by (cases "appendSources ?w1 ?v ds") (simp_all add: fromUrl_Many)
    from appendSources_result [OF a] obtain cs
      where w2: "w2 = upd_video ?w1 ?v (\<lambda>v. v\<lparr>children := children v @ cs\<rparr>)"
        and cs: "list_all2 (\<lambda>d c. createSource (descriptor_path d) (descriptor_mime d) = Inr c)
                   ds cs"
      by blast
    from fromVideo_children [OF v, of ?v] w2
    have ch: "children (videos w' ?v) = cs"
      by (simp add: element_defs blank_video_def)
    with cs show all: "list_all2
        (\<lambda>d c. createSource (descriptor_path d) (descriptor_mime d) = Inr c)
        ds (children (videos w' ?v))"
      by simp
    show "\<forall>i s. i < length ds \<and> ds ! i = Url s \<longrightarrow>
        children (videos w' ?v) ! i = \<lparr>s_src = PathStr s, s_type = ''video/'' @ after_last_dot s\<rparr>"
    proof (intro allI impI)
      fix i s
      assume i: "i < length ds \<and> ds ! i = Url s"
      with all have "createSource (descriptor_path (Url s)) (descriptor_mime (Url s))
          = Inr (children (videos w' ?v) ! i)"
        by (auto simp add: list_all2_conv_all_nth)
      then show "children (videos w' ?v) ! i
          = \<lparr>s_src = PathStr s, s_type = ''video/'' @ after_last_dot s\<rparr>"
        by (simp add: createSource_Url)
    qed
    assume fr: "tags_fresh w"
    let ?w3 = "play (load w2 ?v) ?v"
    from w2 have "\<not> truthy (pixiId (videos ?w3 ?v))"
      by (simp add: element_defs blank_video_def)
    moreover from fr w2 have "tags_fresh ?w3" "next_tex ?w3 = next_tex w"
      by (simp_all add: tags_fresh_def element_defs)
    ultimately show "source (textures w' t) = Some ?v"
      using fromVideo_new [of ?w3 ?v dims] v by auto
  }
  assume "\<forall>d\<in>set ds. has_url d"
  from appendSources_returns [OF this, of ?w1 ?v] obtain w2
    where "appendSources ?w1 ?v ds = Inr w2" by blast
  moreover from fromVideo_twice [of dims "play (load w2 ?v) ?v" ?v]
  obtain w' t where "fromVideo dims (play (load w2 ?v) ?v) ?v = Inr (w', t)" by blast
  ultimately show "\<exists>w' t. fromUrl dims w (Many ds) = Inr (w', t)"
    by (simp add: fromUrl_Many)
qed

text \<open>The example of the spec: two bare file names get the types of their extensions.\<close>

lemma fromUrl_example_children:
  "children (videos url_example 0) =
     [\<lparr>s_src = PathStr ''a.webm'', s_type = ''video/webm''\<rparr>,
      \<lparr>s_src = PathStr ''a.mp4'', s_type = ''video/mp4''\<rparr>]
   \<and> url_file_extension ''a.webm'' = Some ''webm''
   \<and> url_file_extension ''a.mp4'' = Some ''mp4''"
  by (simp add: url_example_def url_file_extension_def url_file_name_def url_path_def
      strip_query_def after_last_dot_def)

text \<open>
  On a bare file name (no slash, query or fragment) with a dot, the text after the last
  dot is the file extension.
\<close>

lemma after_scheme_no_slash: "CHR ''/'' \<notin> set s \<Longrightarrow> after_scheme s = None"
proof (induction s)
  case Nil
  show ?case by simp
next
  case (Cons c cs)
  have "take 3 (c # cs) \<noteq> ''://''"
  proof
    assume "take 3 (c # cs) = ''://''"
    then have "CHR ''/'' \<in> set (take 3 (c # cs))" by simp
    then have "CHR ''/'' \<in> set (c # cs)" by (rule in_set_takeD)
    with Cons.prems show False by simp
  qed
  with Cons show ?case by simp
qed

lemma file_name_extension:
  assumes "CHR ''/'' \<notin> set s" and "CHR ''?'' \<notin> set s" and "CHR ''#'' \<notin> set s"
    and "CHR ''.'' \<in> set s"
  shows "url_file_extension s = Some (after_last_dot s)"
proof -
  from assms(2,3) have q: "strip_query s = s"
    by (auto simp add: strip_query_def)
  from assms(1) have n: "takeWhile (\<lambda>c. c \<noteq> CHR ''/'') (rev s) = rev s" by auto
  from q after_scheme_no_slash [OF assms(1)] have "url_path s = s"
    by (simp add: url_path_def)
  then have "url_file_name s = s"
    by (simp only: url_file_name_def n rev_rev_ident)
  with assms(4) show ?thesis by (simp add: url_file_extension_def)
qed

text \<open>
  C8 fails on the code. For the bare URL \<^verbatim>\<open>http://h.com/v1.2/a.mp4?x=1.5\<close>, which
  contains a dot and whose file extension is \<^verbatim>\<open>mp4\<close>, \<^verbatim>\<open>fromUrl\<close> returns and the
  one child of the created element has the type \<^verbatim>\<open>video/5\<close>, not \<^verbatim>\<open>video/mp4\<close>:
  line 231 takes the text after the last dot of the whole string, here a dot of the
  query. For \<^verbatim>\<open>http://example.com/video\<close>, which has no file extension, the type is
  \<^verbatim>\<open>video/com/video\<close>.
\<close>

theorem fromUrl_type_not_extension:
  "url_file_extension ''http://h.com/v1.2/a.mp4?x=1.5'' = Some ''mp4''
   \<and> (case fromUrl (100, 100) empty_world (Many [Url ''http://h.com/v1.2/a.mp4?x=1.5'']) of
         Inl e \<Rightarrow> False
       | Inr (w', t) \<Rightarrow> map s_type (children (videos w' 0)) = [''video/5''])
   \<and> url_file_extension ''http://example.com/video'' = None
   \<and> (case fromUrl (100, 100) empty_world (Many [Url ''http://example.com/video'']) of
         Inl e \<Rightarrow> False
       | Inr (w', t) \<Rightarrow> map s_type (children (videos w' 0)) = [''video/com/video''])"
proof -
  have n: "next_vid empty_world = 0" by (simp add: empty_world_def)
  have types: "case fromUrl (100, 100) empty_world (Many [Url s]) of
        Inl e \<Rightarrow> False
      | Inr (w', t) \<Rightarrow> map s_type (children (videos w' 0)) = [ty]"
    if ty: "''video/'' @ after_last_dot s = ty" for s ty
  proof -
    have "\<forall>d\<in>set [Url s]. has_url d" by simp
    with fromUrl_children [of "(100, 100)" empty_world "[Url s]", THEN conjunct2]
    obtain w' t where f: "fromUrl (100, 100) empty_world (Many [Url s]) = Inr (w', t)"
      by blast
    from fromUrl_children [of "(100, 100)" empty_world "[Url s]" w' t] f n
    have "list_all2 (\<lambda>d c. createSource (descriptor_path d) (descriptor_mime d) = Inr c)
            [Url s] (children (videos w' 0))"
      by simp
    then have "children (videos w' 0) = [\<lparr>s_src = PathStr s, s_type = ''video/'' @ after_last_dot s\<rparr>]"
      by (auto simp add: list_all2_Cons1 createSource_Url)
    with f ty show ?thesis by simp
  qed
  have "url_file_extension ''http://h.com/v1.2/a.mp4?x=1.5'' = Some ''mp4''"
    "url_file_extension ''http://example.com/video'' = None"
    by (simp_all add: url_file_extension_def url_file_name_def url_path_def strip_query_def
        after_last_dot_def)
  moreover have "''video/'' @ after_last_dot ''http://h.com/v1.2/a.mp4?x=1.5'' = ''video/5''"
    "''video/'' @ after_last_dot ''http://example.com/video'' = ''video/com/video''"
    by (simp_all add: after_last_dot_def)
  note this [THEN types]
  ultimately show ?thesis by simp
qed

subsection \<open>\<^verbatim>\<open>fromUrl\<close> keeps stores well-formed\<close>

lemma wf_world_upd_video:
  assumes "wf_world w" and "pixiId (f (videos w r)) = pixiId (videos w r)"
    and "listeners (f (videos w r)) = listeners (videos w r)"
  shows "wf_world (upd_video w r f)"
  using assms
  by (simp add: wf_world_def tags_fresh_def tags_issued_def cache_allocated_def
      listeners_allocated_def)

lemma wf_world_createElement:
  assumes "wf_world w"
  shows "wf_world (fst (createElement_video w))"
  using assms
  by (simp add: createElement_video_def wf_world_def tags_fresh_def tags_issued_def
      cache_allocated_def listeners_allocated_def blank_video_def)

lemma wf_world_appendSources:
  "wf_world w \<Longrightarrow> appendSources w r ds = Inr w' \<Longrightarrow> wf_world w'"
proof -
  assume w: "wf_world w" and "appendSources w r ds = Inr w'"
  from appendSources_result [OF this(2)] obtain cs
    where "w' = upd_video w r (\<lambda>v. v\<lparr>children := children v @ cs\<rparr>)" by blast
  with w show "wf_world w'" by (simp add: wf_world_upd_video)
qed

lemma wf_world_fromUrl:
  assumes "wf_world w" and "fromUrl dims w videoSrc = Inr (w', t)"
  shows "wf_world w'"
proof -
  obtain w1 v where c: "createElement_video w = (w1, v)" by (cases "createElement_video w")
  with wf_world_createElement [OF assms(1)] have w1: "wf_world w1" by simp
  have "\<exists>w2. wf_world w2 \<and> fromVideo dims (play (load w2 v) v) v = Inr (w', t)"
  proof (cases videoSrc)
    case (Many ds)
    with assms(2) c obtain w2 where a: "appendSources w1 v ds = Inr w2"
      and f: "fromVideo dims (play (load w2 v) v) v = Inr (w', t)"
      by (cases "appendSources w1 v ds") (simp_all add: fromUrl_def)
    from wf_world_appendSources [OF w1 a] f show ?thesis by blast
  next
    case (One d)
    with assms(2) c obtain s
      where f: "fromVideo dims (play (load (appendChild w1 v s) v) v) v = Inr (w', t)"
      by (cases "createSource (descriptor_path d) (descriptor_mime d)")
        (simp_all add: fromUrl_def)
    from w1 have "wf_world (appendChild w1 v s)"
      by (simp add: appendChild_def wf_world_upd_video)
    with f show ?thesis by blast
  qed
  then obtain w2 where w2: "wf_world w2"
    and f: "fromVideo dims (play (load w2 v) v) v = Inr (w', t)"
    by blast
  from w2 have "wf_world (play (load w2 v) v)"
    by (simp add: play_def load_def wf_world_upd_video)
  from wf_world_fromVideo [OF this f] show ?thesis .
qed

end
